(* ===== verification/Prelude.thy ===== *)
theory Prelude
  imports Complex_Main "HOL-Library.Sublist"
begin

text \<open>
  Shared vocabulary of the development. JavaScript values are modelled as follows:
  a JS string is an Isabelle \<open>string\<close> holding its UTF-8 bytes (the sources' only
  non-ASCII characters are the en dash, the em dash and the bullet, each a fixed run of
  bytes, so substring search on bytes agrees with search on code points); a JS Number
  is a \<open>rat\<close> (the program only adds, divides and multiplies small counts, and IEEE
  rounding is not modelled); a JS object used as a dictionary is a map
  \<open>string \<rightharpoonup> 'v\<close>, where \<open>None\<close> is \<open>undefined\<close>.
  The collection \<open>model_simps\<close> gathers the rewrite rules the component proofs share.
\<close>

type_synonym js_string = string
type_synonym js_number = rat
type_synonym 'v js_object = "string \<rightharpoonup> 'v"

named_theorems model_simps "rewrite rules shared by the component proofs"

text \<open>The three non-ASCII characters of the sources, as their UTF-8 bytes.\<close>

definition en_dash :: js_string where
  "en_dash = [CHR 0xE2, CHR 0x80, CHR 0x93]"

definition em_dash :: js_string where
  "em_dash = [CHR 0xE2, CHR 0x80, CHR 0x94]"

definition bullet :: js_string where
  "bullet = [CHR 0xE2, CHR 0x80, CHR 0xA2]"

section \<open>JavaScript truthiness of a dictionary lookup\<close>

text \<open>
  \<open>state.checks[id]\<close> is \<open>undefined\<close>, \<open>true\<close> or \<open>false\<close>; used as a condition
  (\<open>? :\<close>, \<open>!\<close>), \<open>undefined\<close> is falsy.
\<close>

fun js_truthy :: "bool option \<Rightarrow> bool" where
  "js_truthy None = False"
| "js_truthy (Some b) = b"

lemma js_truthy_iff [model_simps]: "js_truthy v \<longleftrightarrow> v = Some True"
  by (cases v) auto

section \<open>Counting folds\<close>

text \<open>
  \<open>xs.reduce((acc, x) => acc + (p(x) ? 1 : 0), n)\<close> is a left fold; it counts the
  elements that satisfy the test.
\<close>

lemma foldl_count_filter [model_simps]:
  "foldl (\<lambda>acc x. acc + (if P x then 1 else 0)) (n::nat) xs = n + length (filter P xs)"
  by (induction xs arbitrary: n) auto

lemma foldl_plus_sum_list [model_simps]:
  "foldl (\<lambda>s x. s + f x) (a::'a::comm_monoid_add) xs = a + sum_list (map f xs)"
  by (induction xs arbitrary: a) (auto simp: add.assoc)

section \<open>Bounds of means\<close>

lemma sum_list_bounds:
  fixes xs :: "rat list"
  assumes "\<forall>x\<in>set xs. lo \<le> x \<and> x \<le> hi"
  shows "of_nat (length xs) * lo \<le> sum_list xs \<and> sum_list xs \<le> of_nat (length xs) * hi"
  using assms by (induction xs) (auto simp: algebra_simps)

lemma mean_bounds:
  fixes xs :: "rat list"
  assumes "\<forall>x\<in>set xs. lo \<le> x \<and> x \<le> hi" and "xs \<noteq> []"
  shows "lo \<le> sum_list xs / of_nat (length xs) \<and> sum_list xs / of_nat (length xs) \<le> hi"
proof -
  have pos: "0 < (of_nat (length xs) :: rat)" using assms(2) by simp
  from sum_list_bounds [OF assms(1)] pos show ?thesis
    by (simp add: pos_le_divide_eq pos_divide_le_eq mult.commute)
qed

lemma sum_list_map_const:
  "(\<forall>x\<in>set xs. f x = c) \<Longrightarrow> sum_list (map f xs) = of_nat (length xs) * (c::rat)"
  by (induction xs) (auto simp: algebra_simps)

section \<open>Lists filtered and truncated\<close>

lemma length_filter_flip:
  assumes "distinct xs" and "x \<in> set xs" and "\<not> P x"
  shows "length (filter (\<lambda>y. if y = x then True else P y) xs) = Suc (length (filter P xs))"
  using assms
proof (induction xs)
  case Nil
  then show ?case by simp
next
  case (Cons y ys)
  show ?case
  proof (cases "y = x")
    case True
    with Cons.prems have "filter (\<lambda>z. if z = x then True else P z) ys = filter P ys"
      by (auto intro: filter_cong)
    with True Cons.prems show ?thesis by simp
  next
    case False
    with Cons show ?thesis by simp
  qed
qed

lemma subseq_take_map_filter: "subseq (take k (map g (filter P xs))) (map g xs)"
proof -
  have "subseq (take k (map g (filter P xs))) (map g (filter P xs))"
    by (rule prefix_imp_subseq) (rule take_is_prefix)
  moreover have "subseq (map g (filter P xs)) (map g xs)"
    by (rule subseq_map) (rule subseq_filter_left)
  ultimately show ?thesis by (rule subseq_order.order_trans)
qed

end
