(* ===== verification/Catalog.thy ===== *)
theory Catalog
  imports Prelude
begin

text \<open>
  The checklist data of \<^verbatim>\<open>src/script.js\<close> (lines 2--72): an ordered list of
  categories, each with an ordered list of items. It is never mutated. The scoring,
  summary, chart and page theories take the catalog as a parameter \<open>cats\<close>, so their
  general lemmas hold for every catalog; \<open>categories\<close> is the one the program ships,
  and the lemmas at the end of this theory establish the shape facts (distinct ids,
  non-empty categories) that the general lemmas assume.
\<close>

section \<open>Data\<close>

record item =
  item_id :: js_string
  label :: js_string
  item_help :: js_string

record category =
  cat_id :: js_string
  title :: js_string
  items :: "item list"

section \<open>The shipped catalog\<close>

definition cat_seo :: category where
  "cat_seo = \<lparr>cat_id = ''seo'', title = ''SEO Basics'', items = [
     \<lparr>item_id = ''meta-title'', label = ''Meta title present and under ~60 characters'',
      item_help = ''Clear, unique, includes target keyword.''\<rparr>,
     \<lparr>item_id = ''meta-desc'', label = ''Meta description present (~155'' @ en_dash @ ''160 chars)'',
      item_help = ''Compelling CTA, unique per page.''\<rparr>,
     \<lparr>item_id = ''h1-single'', label = ''Single H1 per page, descriptive'',
      item_help = ''Use H2/H3 for structure.''\<rparr>,
     \<lparr>item_id = ''urls-clean'', label = ''Clean, readable URLs'',
      item_help = ''Lowercase, hyphens, no query clutter.''\<rparr>,
     \<lparr>item_id = ''canonical'', label = ''Canonical tags for duplicate content'',
      item_help = ''Avoid index bloat.''\<rparr>,
     \<lparr>item_id = ''sitemap'', label = ''XML sitemap submitted to search engines'',
      item_help = ''Updated and accessible.''\<rparr>,
     \<lparr>item_id = ''robots'', label = ''Robots.txt properly configured'',
      item_help = ''Blocks non-public areas only.''\<rparr>]\<rparr>"

definition cat_performance :: category where
  "cat_performance = \<lparr>cat_id = ''performance'', title = ''Performance'', items = [
     \<lparr>item_id = ''images-optimized'', label = ''Images compressed and sized correctly'',
      item_help = ''Use modern formats (WebP/AVIF) where possible.''\<rparr>,
     \<lparr>item_id = ''lazy-loading'', label = ''Lazy-load offscreen images'',
      item_help = ''Improve initial render.''\<rparr>,
     \<lparr>item_id = ''caching'', label = ''Caching enabled (HTTP and app-level)'',
      item_help = ''ETag/Cache-Control headers.''\<rparr>,
     \<lparr>item_id = ''minification'', label = ''CSS/JS minified and bundled reasonably'',
      item_help = ''Reduce round trips.''\<rparr>,
     \<lparr>item_id = ''critical-css'', label = ''Critical CSS inlined for above-the-fold'',
      item_help = ''Faster first paint.''\<rparr>,
     \<lparr>item_id = ''cdn'', label = ''Use CDN for static assets (if global audience)'',
      item_help = ''Lower latency.''\<rparr>]\<rparr>"

definition cat_accessibility :: category where
  "cat_accessibility = \<lparr>cat_id = ''accessibility'', title = ''Accessibility'', items = [
     \<lparr>item_id = ''alt-text'', label = ''Alt text for images'',
      item_help = ''Descriptive, not keyword stuffing.''\<rparr>,
     \<lparr>item_id = ''color-contrast'', label = ''Adequate color contrast'',
      item_help = ''WCAG AA minimum.''\<rparr>,
     \<lparr>item_id = ''keyboard-nav'', label = ''Keyboard navigable'',
      item_help = ''Focusable, visible focus states.''\<rparr>,
     \<lparr>item_id = ''labels'', label = ''Form fields with labels and error messages'',
      item_help = ''ARIA where needed.''\<rparr>,
     \<lparr>item_id = ''semantics'', label = ''Semantic HTML structure'',
      item_help = ''Landmarks: header, main, nav, footer.''\<rparr>]\<rparr>"

definition cat_content :: category where
  "cat_content = \<lparr>cat_id = ''content'', title = ''Content'', items = [
     \<lparr>item_id = ''freshness'', label = ''Content updated and accurate'',
      item_help = ''No outdated info.''\<rparr>,
     \<lparr>item_id = ''clarity'', label = ''Clear value proposition above the fold'',
      item_help = ''What, who, why.''\<rparr>,
     \<lparr>item_id = ''readability'', label = ''Readable copy (short paragraphs, headings)'',
      item_help = ''Plain language.''\<rparr>,
     \<lparr>item_id = ''internal-links'', label = ''Internal links to key pages'',
      item_help = ''Logical navigation.''\<rparr>,
     \<lparr>item_id = ''ctas'', label = ''Strong CTAs with clear actions'',
      item_help = ''Visible and consistent.''\<rparr>]\<rparr>"

definition cat_ux :: category where
  "cat_ux = \<lparr>cat_id = ''ux'', title = ''Design & UX'', items = [
     \<lparr>item_id = ''mobile'', label = ''Mobile-responsive layout'',
      item_help = ''Test across devices.''\<rparr>,
     \<lparr>item_id = ''navigation'', label = ''Intuitive navigation and menu structure'',
      item_help = ''Few clicks to important content.''\<rparr>,
     \<lparr>item_id = ''consistency'', label = ''Consistent styling and spacing'',
      item_help = ''No visual noise.''\<rparr>,
     \<lparr>item_id = ''forms'', label = ''Forms simple and short'',
      item_help = ''Only essential fields.''\<rparr>,
     \<lparr>item_id = ''feedback'', label = ''Clear feedback on actions'',
      item_help = ''Loading states, success/error.''\<rparr>]\<rparr>"

definition cat_security :: category where
  "cat_security = \<lparr>cat_id = ''security'', title = ''Security'', items = [
     \<lparr>item_id = ''https'', label = ''HTTPS enabled site-wide'',
      item_help = ''No mixed content.''\<rparr>,
     \<lparr>item_id = ''headers'', label = ''Security headers configured'',
      item_help = ''CSP, HSTS, X-Frame-Options, etc.''\<rparr>,
     \<lparr>item_id = ''updates'', label = ''Platform/plugins up to date'',
      item_help = ''No known vulnerabilities.''\<rparr>,
     \<lparr>item_id = ''backup'', label = ''Regular backups with restore plan'',
      item_help = ''Test restores.''\<rparr>,
     \<lparr>item_id = ''forms-security'', label = ''Spam protection and validation on forms'',
      item_help = ''Server-side validation.''\<rparr>]\<rparr>"

definition categories :: "category list" where
  "categories = [cat_seo, cat_performance, cat_accessibility, cat_content, cat_ux, cat_security]"

section \<open>Derived views of a catalog\<close>

text \<open>Every item of the catalog in declaration order, with the title of its category.\<close>

definition catalog_items :: "category list \<Rightarrow> (js_string \<times> item) list" where
  "catalog_items cats = concat (map (\<lambda>c. map (\<lambda>i. (title c, i)) (items c)) cats)"

definition all_item_ids :: "category list \<Rightarrow> js_string list" where
  "all_item_ids cats = concat (map (\<lambda>c. map item_id (items c)) cats)"

text \<open>
  The catalog is well formed when category ids are unique (the scores are stored in
  objects keyed by \<open>cat.id\<close>) and item ids are unique across the whole catalog (the
  check state is keyed by \<open>item.id\<close> alone).
\<close>

definition catalog_wf :: "category list \<Rightarrow> bool" where
  "catalog_wf cats \<longleftrightarrow> distinct (map cat_id cats) \<and> distinct (all_item_ids cats)"

lemmas catalog_defs = categories_def cat_seo_def cat_performance_def cat_accessibility_def
  cat_content_def cat_ux_def cat_security_def

section \<open>Shape of the shipped catalog\<close>

lemma categories_cat_ids_distinct: "distinct (map cat_id categories)"
  by (simp add: catalog_defs)

lemma categories_item_ids_distinct: "distinct (all_item_ids categories)"
  by (simp add: all_item_ids_def catalog_defs)

text \<open>C14. The shipped catalog is well formed: its six category ids are distinct and its
  33 item ids are distinct across the whole catalog, as the check state keyed by item id
  alone requires.\<close>

theorem categories_wf: "catalog_wf categories \<and> length (all_item_ids categories) = 33"
  using categories_cat_ids_distinct categories_item_ids_distinct
  by (simp add: catalog_wf_def all_item_ids_def catalog_defs)

lemma categories_nonempty: "\<forall>c\<in>set categories. items c \<noteq> []"
  by (simp add: catalog_defs)

end
