(* ===== verification/Scoring.thy ===== *)
theory Scoring
  imports Catalog
begin

text \<open>
  The check and note state of \<^verbatim>\<open>src/script.js\<close> (lines 93--96), the handlers that
  change it (the checkbox and note listeners of \<open>renderChecklist\<close>, lines 142--155,
  and \<open>clearAll\<close>, lines 275--279) and the score computation \<open>computeScores\<close>
  (lines 159--190), with the outstanding-items list of \<open>renderSummary\<close>
  (lines 209--215). The lemmas show what \<open>computeScores\<close> returns (as a refinement
  of a direct per-category specification), its bounds, and how each handler moves it.
\<close>

section \<open>State\<close>

text \<open>\<open>state.checks\<close> maps item ids to booleans, \<open>state.notes\<close> category ids to text.\<close>

record app_state =
  checks :: "bool js_object"
  cat_notes :: "js_string js_object"

definition init_state :: app_state where
  "init_state = \<lparr>checks = Map.empty, cat_notes = Map.empty\<rparr>"

definition is_checked :: "app_state \<Rightarrow> js_string \<Rightarrow> bool" where
  "is_checked st iid = js_truthy (checks st iid)"

section \<open>Handlers that change the state\<close>

text \<open>The checkbox listener: \<open>state.checks[cb.dataset.item] = cb.checked\<close> (line 144).\<close>

definition set_item_checked :: "js_string \<Rightarrow> bool \<Rightarrow> app_state \<Rightarrow> app_state" where
  "set_item_checked iid b st = st\<lparr>checks := (checks st)(iid \<mapsto> b)\<rparr>"

text \<open>The note listener: \<open>state.notes[cat.id] = ta.value\<close> (line 153).\<close>

definition set_category_note :: "js_string \<Rightarrow> js_string \<Rightarrow> app_state \<Rightarrow> app_state" where
  "set_category_note cid txt st = st\<lparr>cat_notes := (cat_notes st)(cid \<mapsto> txt)\<rparr>"

text \<open>
  The state part of \<open>clearAll\<close>: every key already present in \<open>state.checks\<close> is set
  to \<open>false\<close> (line 276); keys are neither added nor removed, notes are untouched.
\<close>

definition clear_all_checks :: "app_state \<Rightarrow> app_state" where
  "clear_all_checks st = st\<lparr>checks := (\<lambda>iid. map_option (\<lambda>_. False) (checks st iid))\<rparr>"

section \<open>computeScores\<close>

record cat_percent =
  pct_id :: js_string
  pct_title :: js_string
  pct :: js_number

record scores =
  totals :: "nat js_object"
  completed :: "nat js_object"
  total_items :: nat
  total_completed :: nat
  category_percents :: "cat_percent list"
  overall :: js_number

text \<open>\<open>cat.items.reduce((acc, item) => acc + (state.checks[item.id] ? 1 : 0), 0)\<close>.\<close>

definition comp_count :: "app_state \<Rightarrow> item list \<Rightarrow> nat" where
  "comp_count st its =
     foldl (\<lambda>acc it. acc + (if js_truthy (checks st (item_id it)) then 1 else 0)) 0 its"

text \<open>The four accumulators of the \<open>categories.forEach\<close> loop (lines 160--171).\<close>

record tally =
  tl_totals :: "nat js_object"
  tl_completed :: "nat js_object"
  tl_items :: nat
  tl_done :: nat

definition tally0 :: tally where
  "tally0 = \<lparr>tl_totals = Map.empty, tl_completed = Map.empty, tl_items = 0, tl_done = 0\<rparr>"

definition tally_category :: "app_state \<Rightarrow> tally \<Rightarrow> category \<Rightarrow> tally" where
  "tally_category st acc cat =
     (let compCount = comp_count st (items cat) in
      acc\<lparr>tl_totals := (tl_totals acc)(cat_id cat \<mapsto> length (items cat)),
          tl_completed := (tl_completed acc)(cat_id cat \<mapsto> compCount),
          tl_items := tl_items acc + length (items cat),
          tl_done := tl_done acc + compCount\<rparr>)"

text \<open>
  Lines 173--176: \<open>totals[cat.id] ? (completed[cat.id] / totals[cat.id]) * 100 : 0\<close>.
  An absent or zero total is falsy. The loop writes both objects at the same key, so
  a total without a completed count never occurs (\<open>tally_entries_ok\<close> below); the
  model gives that unreachable case (NaN in JavaScript) the value 0.
\<close>

definition cat_pct :: "nat js_object \<Rightarrow> nat js_object \<Rightarrow> category \<Rightarrow> cat_percent" where
  "cat_pct tot cnt cat =
     \<lparr>pct_id = cat_id cat, pct_title = title cat,
      pct = (case (tot (cat_id cat), cnt (cat_id cat)) of
               (Some t, Some n) \<Rightarrow> if t \<noteq> 0 then of_nat n / of_nat t * 100 else 0
             | _ \<Rightarrow> 0)\<rparr>"

text \<open>Lines 178--180: the mean of the category percentages, 0 for no categories.\<close>

definition mean_pct :: "cat_percent list \<Rightarrow> js_number" where
  "mean_pct cps =
     (if length cps \<noteq> 0 then foldl (\<lambda>s c. s + pct c) 0 cps / of_nat (length cps) else 0)"

definition compute_scores :: "category list \<Rightarrow> app_state \<Rightarrow> scores" where
  "compute_scores cats st =
     (let tl = foldl (tally_category st) tally0 cats;
          cps = map (cat_pct (tl_totals tl) (tl_completed tl)) cats
      in \<lparr>totals = tl_totals tl, completed = tl_completed tl,
          total_items = tl_items tl, total_completed = tl_done tl,
          category_percents = cps, overall = mean_pct cps\<rparr>)"

section \<open>Outstanding items\<close>

text \<open>
  Lines 209--215 of \<open>renderSummary\<close>: the nested \<open>forEach\<close> pushes every item whose
  check is falsy, in catalog order, and \<open>slice(0, 6)\<close> keeps the first six.
\<close>

definition outstanding :: "category list \<Rightarrow> app_state \<Rightarrow> (js_string \<times> js_string) list" where
  "outstanding cats st =
     concat (map (\<lambda>cat. map (\<lambda>it. (title cat, label it))
                           (filter (\<lambda>it. \<not> js_truthy (checks st (item_id it))) (items cat)))
             cats)"

definition outstanding_limit :: nat where
  "outstanding_limit = 6"

definition top_outstanding :: "category list \<Rightarrow> app_state \<Rightarrow> (js_string \<times> js_string) list" where
  "top_outstanding cats st = take outstanding_limit (outstanding cats st)"

section \<open>Specification of the score report\<close>

text \<open>
  What \<open>computeScores\<close> promises, stated per category without the intermediate
  objects: the item count, the checked count, the percentage (0 for an empty category)
  and the unweighted mean of the percentages.
\<close>

record category_score =
  cs_id :: js_string
  cs_title :: js_string
  cs_total :: nat
  cs_completed :: nat
  cs_percent :: js_number

record score_report =
  sr_total_items :: nat
  sr_total_completed :: nat
  sr_categories :: "category_score list"
  sr_overall :: js_number

definition checked_in :: "app_state \<Rightarrow> category \<Rightarrow> nat" where
  "checked_in st c = length (filter (\<lambda>it. is_checked st (item_id it)) (items c))"

definition category_score_spec :: "app_state \<Rightarrow> category \<Rightarrow> category_score" where
  "category_score_spec st c =
     \<lparr>cs_id = cat_id c, cs_title = title c, cs_total = length (items c),
      cs_completed = checked_in st c,
      cs_percent = (if items c = [] then 0
                    else of_nat (checked_in st c) / of_nat (length (items c)) * 100)\<rparr>"

definition score_report_spec :: "category list \<Rightarrow> app_state \<Rightarrow> score_report" where
  "score_report_spec cats st =
     (let css = map (category_score_spec st) cats in
      \<lparr>sr_total_items = sum_list (map cs_total css),
       sr_total_completed = sum_list (map cs_completed css),
       sr_categories = css,
       sr_overall = (if css = [] then 0
                     else sum_list (map cs_percent css) / of_nat (length css))\<rparr>)"

text \<open>The abstraction from the program's result: read each category's entries back.\<close>

fun count_or_zero :: "nat option \<Rightarrow> nat" where
  "count_or_zero None = 0"
| "count_or_zero (Some n) = n"

definition report_of :: "category list \<Rightarrow> scores \<Rightarrow> score_report" where
  "report_of cats s =
     \<lparr>sr_total_items = total_items s, sr_total_completed = total_completed s,
      sr_categories =
        map (\<lambda>(c, cp). \<lparr>cs_id = pct_id cp, cs_title = pct_title cp,
                         cs_total = count_or_zero (totals s (cat_id c)),
                         cs_completed = count_or_zero (completed s (cat_id c)),
                         cs_percent = pct cp\<rparr>)
            (zip cats (category_percents s)),
      sr_overall = overall s\<rparr>"

lemmas scores_eval = compute_scores_def tally0_def tally_category_def comp_count_def cat_pct_def
  mean_pct_def Let_def

section \<open>The tally loop\<close>

lemma comp_count_eq [model_simps]:
  "comp_count st its = length (filter (\<lambda>it. is_checked st (item_id it)) its)"
  by (simp add: comp_count_def is_checked_def foldl_count_filter)

lemma comp_count_le: "comp_count st its \<le> length its"
  by (simp add: comp_count_eq)

lemma tally_items:
  "tl_items (foldl (tally_category st) acc cs) = tl_items acc + sum_list (map (\<lambda>c. length (items c)) cs)"
  by (induction cs arbitrary: acc) (simp_all add: tally_category_def Let_def)

lemma tally_done:
  "tl_done (foldl (tally_category st) acc cs) = tl_done acc + sum_list (map (\<lambda>c. checked_in st c) cs)"
  by (induction cs arbitrary: acc) (simp_all add: tally_category_def Let_def comp_count_eq checked_in_def)

lemma tally_fresh:
  "k \<notin> cat_id ` set cs \<Longrightarrow>
   tl_totals (foldl (tally_category st) acc cs) k = tl_totals acc k \<and>
   tl_completed (foldl (tally_category st) acc cs) k = tl_completed acc k"
  by (induction cs arbitrary: acc) (simp_all add: tally_category_def Let_def)

lemma tally_category_entry:
  "tl_totals (tally_category st acc c) (cat_id c) = Some (length (items c)) \<and>
   tl_completed (tally_category st acc c) (cat_id c) = Some (checked_in st c)"
  by (simp add: tally_category_def Let_def comp_count_eq checked_in_def)

lemma tally_entry:
  assumes "distinct (map cat_id cs)" and "c \<in> set cs"
  shows "tl_totals (foldl (tally_category st) acc cs) (cat_id c) = Some (length (items c)) \<and>
         tl_completed (foldl (tally_category st) acc cs) (cat_id c) = Some (checked_in st c)"
  using assms
proof (induction cs arbitrary: acc)
  case Nil
  then show ?case by simp
next
  case (Cons d ds)
  show ?case
  proof (cases "c = d")
    case True
    with Cons.prems(1) have "cat_id d \<notin> cat_id ` set ds" by auto
    then have "tl_totals (foldl (tally_category st) (tally_category st acc d) ds) (cat_id d) =
                 tl_totals (tally_category st acc d) (cat_id d) \<and>
               tl_completed (foldl (tally_category st) (tally_category st acc d) ds) (cat_id d) =
                 tl_completed (tally_category st acc d) (cat_id d)"
      by (rule tally_fresh)
    moreover note tally_category_entry [of st acc d]
    ultimately show ?thesis using True by (simp only: foldl_Cons)
  next
    case False
    with Cons show ?thesis by simp
  qed
qed

text \<open>Without unique ids, the two objects still agree key by key: a completed count
  is stored exactly where a total is, and never exceeds it.\<close>

fun entry_ok :: "nat option \<Rightarrow> nat option \<Rightarrow> bool" where
  "entry_ok None None = True"
| "entry_ok (Some t) (Some n) = (n \<le> t)"
| "entry_ok _ _ = False"

lemma tally_entries_ok:
  "(\<forall>k. entry_ok (tl_totals acc k) (tl_completed acc k)) \<Longrightarrow>
   entry_ok (tl_totals (foldl (tally_category st) acc cs) k)
            (tl_completed (foldl (tally_category st) acc cs) k)"
proof (induction cs arbitrary: acc)
  case Nil
  then show ?case by simp
next
  case (Cons c cs)
  have "\<forall>k. entry_ok (tl_totals (tally_category st acc c) k) (tl_completed (tally_category st acc c) k)"
    using Cons.prems comp_count_le by (simp add: tally_category_def Let_def)
  then show ?case using Cons.IH by simp
qed

lemma compute_scores_entries_ok:
  "entry_ok (totals (compute_scores cats st) k) (completed (compute_scores cats st) k)"
  by (simp add: compute_scores_def Let_def tally_entries_ok tally0_def)

text \<open>Whatever the ids, each key present holds the counts of some category with that id.\<close>

lemma tally_entry_some:
  "k \<in> cat_id ` set cs \<Longrightarrow>
   \<exists>c\<in>set cs. cat_id c = k \<and>
     tl_totals (foldl (tally_category st) acc cs) k = Some (length (items c)) \<and>
     tl_completed (foldl (tally_category st) acc cs) k = Some (checked_in st c)"
proof (induction cs arbitrary: acc)
  case Nil
  then show ?case by simp
next
  case (Cons d ds)
  show ?case
  proof (cases "k \<in> cat_id ` set ds")
    case True
    from Cons.IH [OF True, of "tally_category st acc d"] show ?thesis by auto
  next
    case False
    with Cons.prems have k: "k = cat_id d" by simp
    from tally_fresh [OF False, of st "tally_category st acc d"] k
      tally_category_entry [of st acc d] show ?thesis
      by (simp only: foldl_Cons) auto
  qed
qed

definition ratio_pct :: "nat \<Rightarrow> nat \<Rightarrow> js_number" where
  "ratio_pct n t = (if t = 0 then 0 else of_nat n / of_nat t * 100)"

lemma ratio_pct_bounds: "n \<le> t \<Longrightarrow> 0 \<le> ratio_pct n t \<and> ratio_pct n t \<le> 100"
  by (auto simp: ratio_pct_def field_simps)

lemma cat_pct_entry [model_simps]:
  "tot (cat_id c) = Some t \<Longrightarrow> cnt (cat_id c) = Some n \<Longrightarrow> pct (cat_pct tot cnt c) = ratio_pct n t"
  by (simp add: cat_pct_def ratio_pct_def)

lemma category_score_spec_percent:
  "cs_percent (category_score_spec st c) = ratio_pct (checked_in st c) (length (items c))"
  by (simp add: category_score_spec_def ratio_pct_def)

text \<open>Every reported percentage is that of some category of the catalog.\<close>

lemma compute_scores_pct_some:
  assumes "cp \<in> set (category_percents (compute_scores cats st))"
  shows "\<exists>c\<in>set cats. pct cp = ratio_pct (checked_in st c) (length (items c))"
proof -
  from assms obtain c where c: "c \<in> set cats" and cp:
    "cp = cat_pct (tl_totals (foldl (tally_category st) tally0 cats))
                  (tl_completed (foldl (tally_category st) tally0 cats)) c"
    by (auto simp: compute_scores_def Let_def)
  from c have "cat_id c \<in> cat_id ` set cats" by simp
  from tally_entry_some [OF this, of st tally0] cp show ?thesis
    by (auto simp: cat_pct_entry)
qed

lemma compute_scores_pct_ids:
  "map (\<lambda>cp. (pct_id cp, pct_title cp)) (category_percents (compute_scores cats st)) =
   map (\<lambda>c. (cat_id c, title c)) cats"
  by (simp add: compute_scores_def Let_def cat_pct_def)

lemma compute_scores_totals:
  "total_items (compute_scores cats st) = sum_list (map (\<lambda>c. length (items c)) cats)"
  by (simp add: compute_scores_def Let_def tally_items tally0_def)

lemma compute_scores_completed:
  "total_completed (compute_scores cats st) = sum_list (map (checked_in st) cats)"
  by (simp add: compute_scores_def Let_def tally_done tally0_def)

lemma mean_pct_eq:
  "mean_pct cps = (if cps = [] then 0 else sum_list (map pct cps) / of_nat (length cps))"
  by (simp add: mean_pct_def foldl_plus_sum_list)

lemma map_zip_map_same [model_simps]:
  "map (\<lambda>(x, y). g x y) (zip xs (map f xs)) = map (\<lambda>x. g x (f x)) xs"
  by (induction xs) auto

section \<open>What computeScores computes\<close>

text \<open>C1. Refinement: for a catalog with distinct category ids, the result of computeScores, read back per category, is the score report of the specification: per category the item count, the checked count and the percentage (0 for an empty category), the catalog-wide totals, and the unweighted mean of the percentages.\<close>

theorem compute_scores_refines:
  assumes "distinct (map cat_id cats)"
  shows "report_of cats (compute_scores cats st) = score_report_spec cats st"
proof -
  define tl where "tl = foldl (tally_category st) tally0 cats"
  have entry: "c \<in> set cats \<Longrightarrow> tl_totals tl (cat_id c) = Some (length (items c)) \<and>
                 tl_completed tl (cat_id c) = Some (checked_in st c)" for c
    unfolding tl_def using assms by (rule tally_entry)
  have cats_eq: "map (\<lambda>(c, cp). \<lparr>cs_id = pct_id cp, cs_title = pct_title cp,
                         cs_total = count_or_zero (tl_totals tl (cat_id c)),
                         cs_completed = count_or_zero (tl_completed tl (cat_id c)),
                         cs_percent = pct cp\<rparr>)
                   (zip cats (map (cat_pct (tl_totals tl) (tl_completed tl)) cats))
                 = map (category_score_spec st) cats"
    by (simp add: map_zip_map_same cong: map_cong)
       (simp add: entry cat_pct_def category_score_spec_def)
  have pcts: "map (\<lambda>x. pct (cat_pct (tl_totals tl) (tl_completed tl) x)) cats
              = map (\<lambda>c. if items c = [] then 0
                         else of_nat (checked_in st c) / of_nat (length (items c)) * 100) cats"
    by (rule map_cong) (simp_all add: entry cat_pct_entry ratio_pct_def)
  have items_tl: "tl_items tl = sum_list (map (\<lambda>c. length (items c)) cats)"
    unfolding tl_def by (simp add: tally_items tally0_def)
  have done_tl: "tl_done tl = sum_list (map (checked_in st) cats)"
    unfolding tl_def by (simp add: tally_done tally0_def)
  have "report_of cats (compute_scores cats st) =
        \<lparr>sr_total_items = tl_items tl, sr_total_completed = tl_done tl,
         sr_categories = map (category_score_spec st) cats,
         sr_overall = mean_pct (map (cat_pct (tl_totals tl) (tl_completed tl)) cats)\<rparr>"
    unfolding report_of_def compute_scores_def Let_def tl_def [symmetric] by (simp add: cats_eq)
  also have "\<dots> = score_report_spec cats st"
    by (simp add: score_report_spec_def items_tl done_tl mean_pct_eq o_def pcts
        category_score_spec_def)
  finally show ?thesis .
qed

section \<open>Bounds\<close>

lemma checked_in_le: "checked_in st c \<le> length (items c)"
  by (simp add: checked_in_def)

lemma category_pct_bounds:
  "cp \<in> set (category_percents (compute_scores cats st)) \<Longrightarrow> 0 \<le> pct cp \<and> pct cp \<le> 100"
proof -
  assume "cp \<in> set (category_percents (compute_scores cats st))"
  then obtain c where "pct cp = ratio_pct (checked_in st c) (length (items c))"
    using compute_scores_pct_some by blast
  then show ?thesis using ratio_pct_bounds [OF checked_in_le] by simp
qed

text \<open>C2. Every category percentage computeScores reports lies between 0 and 100, for every catalog and every state (even with duplicate ids).\<close>

theorem compute_scores_pct_bounds:
  "cp \<in> set (category_percents (compute_scores cats st)) \<Longrightarrow> 0 \<le> pct cp \<and> pct cp \<le> 100"
  by (rule category_pct_bounds)

lemma overall_eq:
  "overall (compute_scores cats st) =
     (if cats = [] then 0
      else sum_list (map pct (category_percents (compute_scores cats st))) / of_nat (length cats))"
  by (simp add: compute_scores_def Let_def mean_pct_eq)

lemma overall_bounds:
  "0 \<le> overall (compute_scores cats st) \<and> overall (compute_scores cats st) \<le> 100"
proof (cases "cats = []")
  case True
  then show ?thesis by (simp add: overall_eq)
next
  case False
  let ?ps = "map pct (category_percents (compute_scores cats st))"
  have "\<forall>x\<in>set ?ps. 0 \<le> x \<and> x \<le> 100" using category_pct_bounds by auto
  moreover have "?ps \<noteq> []" and "length ?ps = length cats" using False
    by (simp_all add: compute_scores_def Let_def)
  ultimately show ?thesis using mean_bounds [of ?ps 0 100] False by (simp add: overall_eq)
qed

text \<open>C3. The overall score computeScores reports lies between 0 and 100, for every catalog and every state.\<close>

theorem compute_scores_overall_bounds:
  "0 \<le> overall (compute_scores cats st) \<and> overall (compute_scores cats st) \<le> 100"
  by (rule overall_bounds)

text \<open>C4. The catalog-wide completed count never exceeds the item count.\<close>

theorem compute_scores_completed_le:
  "total_completed (compute_scores cats st) \<le> total_items (compute_scores cats st)"
  by (simp add: compute_scores_totals compute_scores_completed sum_list_mono checked_in_le)

section \<open>Everything checked, nothing checked\<close>

lemma checked_in_all:
  "(\<forall>it\<in>set (items c). is_checked st (item_id it)) \<Longrightarrow> checked_in st c = length (items c)"
  by (simp add: checked_in_def)

lemma checked_in_none:
  "(\<forall>it\<in>set (items c). \<not> is_checked st (item_id it)) \<Longrightarrow> checked_in st c = 0"
  by (simp add: checked_in_def filter_empty_conv)

lemma item_in_catalog:
  "c \<in> set cats \<Longrightarrow> it \<in> set (items c) \<Longrightarrow> item_id it \<in> set (all_item_ids cats)"
  by (auto simp: all_item_ids_def)

text \<open>C5. When every category has at least one item and every item of the catalog is checked, every category reports 100 percent and the overall score is 100 (0 for a catalog without categories).\<close>

theorem compute_scores_all_checked:
  assumes "\<forall>c\<in>set cats. items c \<noteq> []"
    and "\<forall>iid\<in>set (all_item_ids cats). checks st iid = Some True"
  shows "(\<forall>cp\<in>set (category_percents (compute_scores cats st)). pct cp = 100) \<and>
         overall (compute_scores cats st) = (if cats = [] then 0 else 100)"
proof -
  have all: "\<forall>cp\<in>set (category_percents (compute_scores cats st)). pct cp = 100"
  proof
    fix cp assume "cp \<in> set (category_percents (compute_scores cats st))"
    then obtain c where c: "c \<in> set cats"
      and p: "pct cp = ratio_pct (checked_in st c) (length (items c))"
      using compute_scores_pct_some by blast
    have "checked_in st c = length (items c)"
      using assms(2) c item_in_catalog by (auto intro!: checked_in_all simp: is_checked_def)
    with p c assms(1) show "pct cp = 100" by (simp add: ratio_pct_def)
  qed
  have len: "length (category_percents (compute_scores cats st)) = length cats"
    by (simp add: compute_scores_def Let_def)
  have "sum_list (map pct (category_percents (compute_scores cats st))) = of_nat (length cats) * 100"
    using sum_list_map_const [OF all] len by simp
  with all show ?thesis by (simp add: overall_eq)
qed

text \<open>C6. When no item of the catalog is checked, every category reports 0 percent, the overall score is 0 and the completed count is 0.\<close>

theorem compute_scores_none_checked:
  assumes "\<forall>iid\<in>set (all_item_ids cats). \<not> is_checked st iid"
  shows "(\<forall>cp\<in>set (category_percents (compute_scores cats st)). pct cp = 0) \<and>
         overall (compute_scores cats st) = 0 \<and> total_completed (compute_scores cats st) = 0"
proof -
  have none: "c \<in> set cats \<Longrightarrow> checked_in st c = 0" for c
    using assms item_in_catalog by (blast intro: checked_in_none)
  have all: "\<forall>cp\<in>set (category_percents (compute_scores cats st)). pct cp = 0"
    using compute_scores_pct_some none by (fastforce simp: ratio_pct_def)
  have "sum_list (map pct (category_percents (compute_scores cats st))) = 0"
    using sum_list_map_const [OF all] by simp
  with all none show ?thesis by (simp add: overall_eq compute_scores_completed)
qed

section \<open>The handlers and the scores\<close>

lemma is_checked_set_item [model_simps]:
  "is_checked (set_item_checked iid b st) j = (if j = iid then b else is_checked st j)"
  by (simp add: is_checked_def set_item_checked_def)

lemma is_checked_clear [model_simps]: "\<not> is_checked (clear_all_checks st) j"
  by (cases "checks st j") (simp_all add: is_checked_def clear_all_checks_def)

lemma comp_count_cong:
  "\<forall>it\<in>set its. is_checked st (item_id it) = is_checked st' (item_id it) \<Longrightarrow>
   comp_count st its = comp_count st' its"
  unfolding comp_count_eq by (metis (mono_tags, lifting) filter_cong)

text \<open>The scores read the state only through the checks of catalog items.\<close>

lemma compute_scores_cong:
  assumes "\<forall>iid\<in>set (all_item_ids cats). is_checked st iid = is_checked st' iid"
  shows "compute_scores cats st = compute_scores cats st'"
proof -
  have "c \<in> set cats \<Longrightarrow> tally_category st acc c = tally_category st' acc c" for c acc
    using assms comp_count_cong [of "items c" st st'] item_in_catalog [of c cats]
    by (simp add: tally_category_def)
  then have "foldl (tally_category st) tally0 cats = foldl (tally_category st') tally0 cats"
    by (rule foldl_cong [OF refl refl])
  then show ?thesis by (simp add: compute_scores_def)
qed

lemma total_items_eq:
  "total_items (compute_scores cats st) = length (all_item_ids cats)"
  by (simp add: compute_scores_totals all_item_ids_def length_concat o_def)

lemma total_completed_eq:
  "total_completed (compute_scores cats st) = length (filter (is_checked st) (all_item_ids cats))"
  by (induction cats) (simp_all add: compute_scores_completed all_item_ids_def checked_in_def filter_map o_def)

text \<open>C12. After clearAll the scores are those of the initial, empty state.\<close>

theorem clear_all_checks_scores:
  "compute_scores cats (clear_all_checks st) = compute_scores cats init_state"
  by (rule compute_scores_cong) (simp add: is_checked_clear, simp add: init_state_def is_checked_def)

lemma cat_notes_clear [simp]: "cat_notes (clear_all_checks st) = cat_notes st"
  by (simp add: clear_all_checks_def)

lemma dom_checks_clear [simp]: "dom (checks (clear_all_checks st)) = dom (checks st)"
  by (simp add: clear_all_checks_def dom_def)

text \<open>C13. clearAll leaves the notes untouched and keeps exactly the keys already present in the check object.\<close>

theorem clear_all_checks_frame:
  "cat_notes (clear_all_checks st) = cat_notes st \<and> dom (checks (clear_all_checks st)) = dom (checks st)"
  by simp

text \<open>C11. Setting the check of an id that is not a catalog item leaves every score unchanged (the key is stored, but never read).\<close>

theorem set_item_checked_unknown:
  "iid \<notin> set (all_item_ids cats) \<Longrightarrow>
   compute_scores cats (set_item_checked iid b st) = compute_scores cats st"
  by (rule compute_scores_cong) (auto simp: is_checked_set_item)

text \<open>C10. With unique item ids, checking an unchecked catalog item raises the completed count by exactly one.\<close>

theorem set_item_checked_increments:
  assumes "distinct (all_item_ids cats)" and "iid \<in> set (all_item_ids cats)" and "\<not> is_checked st iid"
  shows "total_completed (compute_scores cats (set_item_checked iid True st)) =
         Suc (total_completed (compute_scores cats st))"
proof -
  have "is_checked (set_item_checked iid True st) = (\<lambda>j. if j = iid then True else is_checked st j)"
    by (simp add: is_checked_set_item fun_eq_iff)
  with length_filter_flip [where P = "is_checked st", OF assms] show ?thesis by (simp add: total_completed_eq)
qed

section \<open>The outstanding list\<close>

lemma outstanding_eq:
  "outstanding cats st =
     map (\<lambda>x. (fst x, label (snd x)))
         (filter (\<lambda>x. \<not> is_checked st (item_id (snd x))) (catalog_items cats))"
  by (induction cats) (simp_all add: outstanding_def catalog_items_def is_checked_def filter_map o_def)

lemma all_item_ids_catalog_items:
  "all_item_ids cats = map (\<lambda>(t, it). item_id it) (catalog_items cats)"
  by (induction cats) (simp_all add: all_item_ids_def catalog_items_def o_def)

text \<open>C7. The outstanding list shown holds min(6, items - completed) entries.\<close>

theorem top_outstanding_length:
  "length (top_outstanding cats st) =
     min 6 (total_items (compute_scores cats st) - total_completed (compute_scores cats st))"
proof -
  let ?L = "catalog_items cats" and ?P = "\<lambda>x. is_checked st (item_id (snd x))"
  have "total_items (compute_scores cats st) = length ?L"
    by (simp add: total_items_eq all_item_ids_catalog_items)
  moreover have "total_completed (compute_scores cats st) = length (filter ?P ?L)"
    by (simp add: total_completed_eq all_item_ids_catalog_items filter_map o_def case_prod_beta)
  moreover have "length (filter ?P ?L) + length (filter (\<lambda>x. \<not> ?P x) ?L) = length ?L"
    by (rule sum_length_filter_compl)
  ultimately show ?thesis
    by (simp add: top_outstanding_def outstanding_limit_def outstanding_eq min.commute)
qed

text \<open>C8. The outstanding list is a subsequence of the catalog's items in declaration order: no sorting, no reordering.\<close>

theorem top_outstanding_order:
  "subseq (top_outstanding cats st) (map (\<lambda>x. (fst x, label (snd x))) (catalog_items cats))"
  unfolding top_outstanding_def outstanding_eq by (rule subseq_take_map_filter)

lemma top_outstanding_Nil_conv:
  "top_outstanding cats st = [] \<longleftrightarrow> (\<forall>iid\<in>set (all_item_ids cats). is_checked st iid)"
  by (auto simp: top_outstanding_def outstanding_limit_def outstanding_eq filter_empty_conv
      all_item_ids_catalog_items)


text \<open>C9. The outstanding list is empty exactly when every item of the catalog is checked (the case in which the page shows its all-clear placeholder).\<close>

theorem top_outstanding_empty_iff:
  "top_outstanding cats st = [] \<longleftrightarrow> (\<forall>iid\<in>set (all_item_ids cats). is_checked st iid)"
  by (rule top_outstanding_Nil_conv)

end
