(* ===== verification/Format.thy ===== *)
theory Format
  imports Prelude
begin

text \<open>
  The JavaScript built-ins through which \<^verbatim>\<open>src/script.js\<close> turns numbers into text
  and text back into pieces: Number to String of a count inside a template literal
  (lines 194--195, 201), \<open>Number.prototype.toFixed(0)\<close> (lines 197, 204, 250, 255),
  \<open>Array.prototype.join\<close> (line 205), \<open>String.prototype.split\<close> with a string
  separator (lines 254, 307) and \<open>String.prototype.trim\<close> (line 309), after the
  ECMAScript specification. Strings are UTF-8 byte lists (see \<open>Prelude\<close>).
  Proved here: decimal rendering is injective (it has a left inverse), \<open>toFixed(0)\<close>
  rounds to the nearest integer with ties upwards, the splitter terminates, and
  splitting a joined line and trimming the pieces gives the pieces back when no piece
  contains the separator and none starts or ends with white space.
\<close>

section \<open>Counts as decimal text\<close>

fun string_of_nat :: "nat \<Rightarrow> js_string" where
  "string_of_nat n =
     (if n < 10 then [char_of (48 + n)]
      else string_of_nat (n div 10) @ [char_of (48 + n mod 10)])"

declare string_of_nat.simps [simp del]

text \<open>Reading decimal digits back (the left inverse used to prove injectivity).\<close>

definition nat_of_digits :: "js_string \<Rightarrow> nat" where
  "nat_of_digits s = foldl (\<lambda>acc c. 10 * acc + (of_char c - 48)) 0 s"

section \<open>toFixed(0)\<close>

text \<open>
  ECMAScript \<open>Number.prototype.toFixed(0)\<close>: a negative argument gives a minus sign
  and its absolute value is rounded; the integer \<open>n\<close> nearest to it is chosen, the
  larger one of two equally near. For arguments of \<open>10^21\<close> and more the
  specification switches to exponent notation; the model does not, and the program
  only formats percentages between 0 and 100.
\<close>

definition round_half_up :: "rat \<Rightarrow> int" where
  "round_half_up x = floor (x + 1/2)"

definition to_fixed0 :: "js_number \<Rightarrow> js_string" where
  "to_fixed0 x =
     (if x < 0 then ''-'' else '''') @ string_of_nat (nat (round_half_up \<bar>x\<bar>))"

section \<open>join, split, trim\<close>

fun js_join :: "js_string \<Rightarrow> js_string list \<Rightarrow> js_string" where
  "js_join sep [] = []"
| "js_join sep [x] = x"
| "js_join sep (x # y # zs) = x @ sep @ js_join sep (y # zs)"

text \<open>
  The splitter scans left to right; at each position where the separator starts, the
  piece collected so far is emitted and the scan continues after the separator.
  Its termination measure is the length of the unscanned rest.
\<close>

function split_from :: "js_string \<Rightarrow> js_string \<Rightarrow> js_string \<Rightarrow> js_string list" where
  "split_from sep acc [] = [acc]"
| "split_from sep acc (c # cs) =
     (if sep \<noteq> [] \<and> prefix sep (c # cs)
      then acc # split_from sep [] (drop (length sep) (c # cs))
      else split_from sep (acc @ [c]) cs)"
  by pat_completeness auto
termination
  by (relation "measure (\<lambda>(sep, acc, s). length s)") auto

text \<open>An empty separator splits into single characters (code units in JavaScript).\<close>

definition js_split :: "js_string \<Rightarrow> js_string \<Rightarrow> js_string list" where
  "js_split sep s = (if sep = [] then map (\<lambda>c. [c]) s else split_from sep [] s)"

text \<open>
  White space for \<open>trim\<close>: tab, line feed, vertical tab, form feed, carriage return and
  space. The multi-byte white space of Unicode (no-break space, line separator, ...)
  is not recognised byte by byte; the program's strings contain none.
\<close>

definition js_space :: "char \<Rightarrow> bool" where
  "js_space c \<longleftrightarrow> of_char c \<in> {9, 10, 11, 12, 13, 32::nat}"

definition js_trim :: "js_string \<Rightarrow> js_string" where
  "js_trim s = rev (dropWhile js_space (rev (dropWhile js_space s)))"

section \<open>Decimal rendering\<close>

lemma nat_of_digits_snoc:
  "nat_of_digits (xs @ [c]) = 10 * nat_of_digits xs + (of_char c - 48)"
  by (simp add: nat_of_digits_def)

lemma of_char_digit: "(d::nat) < 10 \<Longrightarrow> (of_char (char_of (48 + d) :: char) :: nat) = 48 + d"
  by simp

text \<open>Reading the decimal text back gives the number, so the rendering is injective.\<close>

lemma nat_of_digits_string_of_nat: "nat_of_digits (string_of_nat n) = n"
proof (induction n rule: string_of_nat.induct)
  case (1 n)
  show ?case
  proof (cases "n < 10")
    case True
    then show ?thesis
      by (simp add: string_of_nat.simps [of n] nat_of_digits_def of_char_digit)
  next
    case False
    then have "nat_of_digits (string_of_nat (n div 10)) = n div 10" using "1.IH" by simp
    with False show ?thesis
      by (simp add: string_of_nat.simps [of n] nat_of_digits_snoc of_char_digit)
  qed
qed

lemma string_of_nat_digits:
  "c \<in> set (string_of_nat n) \<Longrightarrow> 48 \<le> (of_char c :: nat) \<and> (of_char c :: nat) \<le> 57"
proof (induction n rule: string_of_nat.induct)
  case (1 n)
  then show ?case
    by (cases "n < 10") (auto simp: string_of_nat.simps [of n] of_char_digit)
qed

lemma string_of_nat_nonempty: "string_of_nat n \<noteq> []"
  by (simp add: string_of_nat.simps [of n])

section \<open>Rounding\<close>

lemma round_half_up_nearest:
  "\<bar>of_int (round_half_up x) - x\<bar> \<le> 1/2"
  unfolding round_half_up_def
  using floor_correct [of "x + 1/2"] by linarith

lemma round_half_up_tie: "round_half_up (of_int k + 1/2) = k + 1"
  by (simp add: round_half_up_def)

lemma round_half_up_mono: "x \<le> y \<Longrightarrow> round_half_up x \<le> round_half_up y"
  by (simp add: round_half_up_def floor_mono)

lemma round_half_up_of_int [simp]: "round_half_up (of_int k) = k"
  by (simp add: round_half_up_def floor_eq_iff)

lemma to_fixed0_nonneg: "0 \<le> x \<Longrightarrow> to_fixed0 x = string_of_nat (nat (round_half_up x))"
  by (simp add: to_fixed0_def)

lemma string_of_nat_inj: "string_of_nat m = string_of_nat n \<longleftrightarrow> m = n"
  by (metis nat_of_digits_string_of_nat)

lemma round_half_up_eq_iff: "round_half_up x = k \<longleftrightarrow> of_int k - 1/2 \<le> x \<and> x < of_int k + 1/2"
  by (simp add: round_half_up_def floor_eq_iff) linarith

lemma to_fixed0_of_nat [model_simps]: "to_fixed0 (of_nat k) = string_of_nat k"
proof -
  have "round_half_up (of_nat k) = int k"
    using round_half_up_of_int [of "int k"] by simp
  then show ?thesis by (simp add: to_fixed0_def)
qed

section \<open>Splitting a joined line\<close>

lemma split_from_no_sep:
  "sep \<noteq> [] \<Longrightarrow> \<not> sublist sep s \<Longrightarrow> split_from sep acc s = [acc @ s]"
proof (induction s arbitrary: acc)
  case Nil
  then show ?case by simp
next
  case (Cons c cs)
  from Cons.prems(2) have "\<not> prefix sep (c # cs)" and "\<not> sublist sep cs"
    by (auto simp: sublist_Cons_right)
  with Cons show ?case by simp
qed

text \<open>The first occurrence of the separator in \<open>a @ sep @ b\<close> is the one after
  \<open>a\<close>, when no occurrence starts inside \<open>a\<close> (one that starts there lies in
  \<open>a @ butlast sep\<close>).\<close>

lemma split_from_append:
  assumes "sep \<noteq> []" and "\<not> sublist sep (a @ butlast sep)"
  shows "split_from sep acc (a @ sep @ b) = (acc @ a) # split_from sep [] b"
  using assms(2)
proof (induction a arbitrary: acc)
  case Nil
  from assms(1) obtain c cs where sep: "sep = c # cs" by (cases sep) auto
  then show ?case by simp
next
  case (Cons x a)
  let ?q = "x # a @ butlast sep"
  have split: "(x # a) @ sep @ b = ?q @ (last sep # b)"
    using assms(1) by (metis append.assoc append_Cons append_butlast_last_id append_Cons append_Nil)
  have "\<not> prefix sep ((x # a) @ sep @ b)"
  proof
    assume "prefix sep ((x # a) @ sep @ b)"
    then have "prefix sep (?q @ (last sep # b))" by (simp only: split)
    moreover have "prefix ?q (?q @ (last sep # b))" by simp
    moreover have "length sep \<le> length ?q" using assms(1) by simp
    ultimately have "prefix sep ?q" by (rule prefix_length_prefix)
    then have "sublist sep ?q" by (rule prefix_imp_sublist)
    with Cons.prems show False by simp
  qed
  moreover from Cons.prems have "\<not> sublist sep (a @ butlast sep)"
    by (simp add: sublist_Cons_right)
  ultimately show ?case using Cons.IH [of "acc @ [x]"] by simp
qed

section \<open>Trimming padded text\<close>

lemma dropWhile_all: "\<forall>c\<in>set xs. P c \<Longrightarrow> dropWhile P xs = []"
  by (simp add: dropWhile_eq_Nil_conv)

lemma js_trim_pad:
  assumes "\<forall>c\<in>set pre. js_space c" and "\<forall>c\<in>set post. js_space c"
  shows "js_trim (pre @ x @ post) = js_trim x"
proof (cases "\<forall>c\<in>set x. js_space c")
  case True
  with assms show ?thesis by (simp add: js_trim_def dropWhile_all)
next
  case False
  then obtain c where "c \<in> set x" and "\<not> js_space c" by blast
  then have "dropWhile js_space (x @ post) = dropWhile js_space x @ post"
    by (rule dropWhile_append1)
  then have "dropWhile js_space (pre @ x @ post) = dropWhile js_space x @ post"
    using assms(1) by (simp add: dropWhile_append2)
  moreover have "dropWhile js_space (rev post @ r) = dropWhile js_space r" for r
    by (rule dropWhile_append2) (use assms(2) in auto)
  ultimately show ?thesis by (simp add: js_trim_def)
qed

lemma sublist_in_padded:
  "sublist sep x \<Longrightarrow> sublist sep (post @ x @ z)"
  by (meson sublist_appendI sublist_order.order_trans)

lemma split_join_lead:
  assumes "sep \<noteq> []" and "\<forall>c\<in>set pre. js_space c" and "\<forall>c\<in>set post. js_space c"
    and "\<forall>x\<in>set xs. js_trim x = x \<and> \<not> sublist sep (post @ x @ pre @ butlast sep)"
    and "xs \<noteq> []" and "lead = [] \<or> lead = post"
  shows "map js_trim (split_from sep [] (lead @ js_join (pre @ sep @ post) xs)) = xs"
  using assms(4-6)
proof (induction xs arbitrary: lead rule: induct_list012)
  case 1
  then show ?case by simp
next
  case (2 x)
  have lead_space: "\<forall>c\<in>set lead. js_space c" using "2.prems"(3) assms(3) by auto
  have "\<not> sublist sep (lead @ x)"
  proof
    assume "sublist sep (lead @ x)"
    then have "sublist sep (post @ x @ pre @ butlast sep)"
      using "2.prems"(3) sublist_in_padded [of sep x post "pre @ butlast sep"]
        sublist_in_padded [of sep "post @ x" "[]" "pre @ butlast sep"] by auto
    with "2.prems"(1) show False by simp
  qed
  then have "split_from sep [] (lead @ x) = [lead @ x]" by (simp add: split_from_no_sep assms(1))
  moreover have "js_trim (lead @ x @ []) = js_trim x" using lead_space by (rule js_trim_pad) simp
  ultimately show ?case using "2.prems"(1) by simp
next
  case (3 x y zs)
  have lead_space: "\<forall>c\<in>set lead. js_space c" using "3.prems"(3) assms(3) by auto
  have nosep: "\<not> sublist sep ((lead @ x @ pre) @ butlast sep)"
  proof
    assume "sublist sep ((lead @ x @ pre) @ butlast sep)"
    then have "sublist sep (post @ x @ pre @ butlast sep)"
      using "3.prems"(3) sublist_in_padded [of sep "x @ pre @ butlast sep" post "[]"] by auto
    with "3.prems"(1) show False by simp
  qed
  have eq: "lead @ js_join (pre @ sep @ post) (x # y # zs) =
            (lead @ x @ pre) @ sep @ (post @ js_join (pre @ sep @ post) (y # zs))" by simp
  have "js_trim (lead @ x @ pre) = x"
    using js_trim_pad [OF lead_space assms(2), of x] "3.prems"(1) by simp
  moreover have "map js_trim (split_from sep [] (post @ js_join (pre @ sep @ post) (y # zs))) = y # zs"
    using "3.IH"(2) [of post] "3.prems"(1) by simp
  ultimately show ?case
    by (simp only: eq split_from_append [OF assms(1) nosep]) simp
qed

theorem split_join_trim:
  assumes "sep \<noteq> []" and "xs \<noteq> []"
    and "\<forall>c\<in>set pre. js_space c" and "\<forall>c\<in>set post. js_space c"
    and "\<forall>x\<in>set xs. js_trim x = x \<and> \<not> sublist sep (post @ x @ pre @ butlast sep)"
  shows "map js_trim (js_split sep (js_join (pre @ sep @ post) xs)) = xs"
  using split_join_lead [OF assms(1,3,4,5,2), of "[]"] assms(1) by (simp add: js_split_def)

end
