(* ===== verification/Summary.thy ===== *)
theory Summary
  imports Scoring Format
begin

text \<open>
  \<open>renderSummary\<close> of \<^verbatim>\<open>src/script.js\<close> (lines 193--219): the text written into
  the summary fields of the page. Each field is modelled by the text it holds after
  the call (its \<open>textContent\<close>; for the outstanding list, the text of each
  \<open>li\<close>, which equals the interpolated string because the catalog's titles and
  labels contain no markup). The lemmas show what each field displays, that the joined
  category line can be split back into its per-category pieces (which the PDF export
  relies on), and that the colour class and the rounded score can disagree.
\<close>

section \<open>The summary fields\<close>

record summary_view =
  out_completed :: js_string
  out_total :: js_string
  out_overall :: js_string
  out_overall_class :: js_string
  out_sections :: js_string
  out_category_scores :: js_string
  out_outstanding :: "js_string list"

text \<open>Line 199: the class compares the unrounded overall score with 80 and 50.\<close>

definition overall_class :: "js_number \<Rightarrow> js_string" where
  "overall_class v = ''value '' @ (if v \<ge> 80 then ''good'' else if v \<ge> 50 then ''warn'' else ''bad'')"

text \<open>Line 204: \<open>`${c.title}: ${c.pct.toFixed(0)}%`\<close>.\<close>

definition category_score_text :: "cat_percent \<Rightarrow> js_string" where
  "category_score_text c = pct_title c @ '': '' @ to_fixed0 (pct c) @ ''%''"

definition score_separator :: js_string where
  "score_separator = '' '' @ bullet @ '' ''"

text \<open>Lines 203--206: the joined line, or an em dash when it is empty (\<open>scoreText || "-"\<close>).\<close>

definition category_scores_display :: "cat_percent list \<Rightarrow> js_string" where
  "category_scores_display cps =
     (let scoreText = js_join score_separator (map category_score_text cps)
      in if scoreText = [] then em_dash else scoreText)"

text \<open>Lines 216--218: one \<open>li\<close> per outstanding item, or the all-clear placeholder.\<close>

definition all_clear_text :: js_string where
  "all_clear_text = ''All items checked '' @ em_dash @ '' great job!''"

definition outstanding_display :: "(js_string \<times> js_string) list \<Rightarrow> js_string list" where
  "outstanding_display shown =
     (if shown = [] then [all_clear_text] else map (\<lambda>(c, l). c @ '': '' @ l) shown)"

definition render_summary :: "category list \<Rightarrow> app_state \<Rightarrow> scores \<Rightarrow> summary_view" where
  "render_summary cats st sc =
     \<lparr>out_completed = string_of_nat (total_completed sc),
      out_total = string_of_nat (total_items sc),
      out_overall = to_fixed0 (overall sc) @ ''%'',
      out_overall_class = overall_class (overall sc),
      out_sections = string_of_nat (length cats),
      out_category_scores = category_scores_display (category_percents sc),
      out_outstanding = outstanding_display (top_outstanding cats st)\<rparr>"

section \<open>Pieces of the joined line\<close>

definition ascii_char :: "char \<Rightarrow> bool" where
  "ascii_char c \<longleftrightarrow> (of_char c :: nat) < 128"

lemma bullet_not_ascii: "c \<in> set bullet \<Longrightarrow> \<not> ascii_char c"
  by (auto simp: bullet_def ascii_char_def)

lemma no_bullet_append:
  assumes "\<not> sublist bullet xs" and "\<not> sublist bullet ys" and "ascii_char c"
  shows "\<not> sublist bullet (xs @ c # ys)"
proof
  assume sub: "sublist bullet (xs @ c # ys)"
  have cn: "c \<notin> set bullet" using assms(3) bullet_not_ascii by blast
  have "\<not> prefix bullet (c # ys)" using cn by (auto simp: bullet_def)
  then have "\<not> sublist bullet (c # ys)" using assms(2) by (simp add: sublist_Cons_right)
  moreover have "\<not> (suffix w1 xs \<and> prefix w2 (c # ys))" if "bullet = w1 @ w2" for w1 w2
  proof (cases w2)
    case Nil
    with that assms(1) show ?thesis by (auto dest: suffix_imp_sublist)
  next
    case (Cons d ds)
    have "d \<in> set (w1 @ w2)" using Cons by simp
    then have "d \<in> set bullet" using that by (simp only:)
    moreover have "prefix w2 (c # ys) \<Longrightarrow> d = c" using Cons by simp
    ultimately show ?thesis using cn by blast
  qed
  ultimately show False using sub assms(1) by (auto simp: sublist_append)
qed

lemma bullet_nonempty [simp]: "bullet \<noteq> []"
  by (simp add: bullet_def)

lemma ascii_no_bullet: "\<forall>c\<in>set s. ascii_char c \<Longrightarrow> \<not> sublist bullet s"
proof
  assume all: "\<forall>c\<in>set s. ascii_char c" and "sublist bullet s"
  then have "set bullet \<subseteq> set s" by (auto simp: sublist_def)
  moreover have "CHR 0xE2 \<in> set bullet" by (simp add: bullet_def)
  ultimately show False using all bullet_not_ascii by blast
qed

lemma to_fixed0_ascii: "c \<in> set (to_fixed0 x) \<Longrightarrow> ascii_char c"
  by (auto simp: to_fixed0_def ascii_char_def dest!: string_of_nat_digits)

lemma short_no_bullet: "\<not> sublist bullet (butlast bullet)"
  by (auto simp: bullet_def dest: sublist_length_le)

lemma category_line_no_bullet:
  assumes "\<not> sublist bullet (pct_title cp)"
  shows "\<not> sublist bullet ('' '' @ category_score_text cp @ '' '' @ butlast bullet)"
proof -
  have d: "\<not> sublist bullet (to_fixed0 (pct cp))" by (rule ascii_no_bullet) (auto intro: to_fixed0_ascii)
  have a: "ascii_char (CHR '' '')" "ascii_char (CHR '':'')" "ascii_char (CHR ''%'')"
    by (simp_all add: ascii_char_def)
  have "\<not> sublist bullet ([] @ CHR '' '' # pct_title cp @ CHR '':'' # [] @ CHR '' '' #
          to_fixed0 (pct cp) @ CHR ''%'' # [] @ CHR '' '' # butlast bullet)"
    by (intro no_bullet_append assms d a short_no_bullet) simp_all
  then show ?thesis by (simp add: category_score_text_def)
qed

lemma js_trim_id:
  assumes "s \<noteq> []" and "\<not> js_space (hd s)" and "\<not> js_space (last s)"
  shows "js_trim s = s"
proof -
  have "dropWhile js_space s = s" using assms(2) by (simp add: dropWhile_eq_self_iff)
  moreover have "dropWhile js_space (rev s) = rev s"
    using assms(1,3) by (simp add: dropWhile_eq_self_iff hd_rev)
  ultimately show ?thesis by (simp add: js_trim_def)
qed

lemma category_line_trimmed:
  assumes "pct_title cp = [] \<or> \<not> js_space (hd (pct_title cp))"
  shows "js_trim (category_score_text cp) = category_score_text cp"
  using assms by (intro js_trim_id) (auto simp: category_score_text_def js_space_def hd_append)

lemma js_join_nonempty: "xs \<noteq> [] \<Longrightarrow> hd xs \<noteq> [] \<Longrightarrow> js_join sep xs \<noteq> []"
  by (induction sep xs rule: js_join.induct) auto

lemma category_score_text_nonempty: "category_score_text cp \<noteq> []"
  by (simp add: category_score_text_def)

lemma pct_title_in_catalog:
  "cp \<in> set (category_percents (compute_scores cats st)) \<Longrightarrow> \<exists>c\<in>set cats. pct_title cp = title c"
proof -
  assume "cp \<in> set (category_percents (compute_scores cats st))"
  then have "(pct_id cp, pct_title cp) \<in> set (map (\<lambda>cp. (pct_id cp, pct_title cp)) (category_percents (compute_scores cats st)))"
    by simp
  then have "(pct_id cp, pct_title cp) \<in> set (map (\<lambda>c. (cat_id c, title c)) cats)"
    by (simp only: compute_scores_pct_ids)
  then show ?thesis by auto
qed

lemma length_category_percents [simp]:
  "length (category_percents (compute_scores cats st)) = length cats"
  by (simp add: compute_scores_def Let_def)

section \<open>What the summary shows\<close>

lemma displayed_category_line_split:
  assumes "cats \<noteq> []"
    and "\<forall>c\<in>set cats. \<not> sublist bullet (title c) \<and> (title c = [] \<or> \<not> js_space (hd (title c)))"
  shows "map js_trim (js_split bullet (out_category_scores (render_summary cats st (compute_scores cats st))))
           = map category_score_text (category_percents (compute_scores cats st))"
proof -
  let ?cps = "category_percents (compute_scores cats st)"
  let ?lines = "map category_score_text ?cps"
  have good: "js_trim x = x \<and> \<not> sublist bullet ('' '' @ x @ '' '' @ butlast bullet)"
    if "x \<in> set ?lines" for x
  proof -
    from that obtain cp where cp: "cp \<in> set ?cps" and x: "x = category_score_text cp" by auto
    from pct_title_in_catalog [OF cp] obtain c where c: "c \<in> set cats" and t: "pct_title cp = title c"
      by blast
    from assms(2) c t have "\<not> sublist bullet (pct_title cp)"
      and "pct_title cp = [] \<or> \<not> js_space (hd (pct_title cp))" by simp_all
    then show ?thesis using x category_line_no_bullet category_line_trimmed by simp
  qed
  have "length ?lines = length cats" by simp
  then have ne: "?lines \<noteq> []" using assms(1) by (metis length_0_conv)
  then have "hd ?lines \<noteq> []" by (simp add: hd_map category_score_text_nonempty)
  with ne have "js_join score_separator ?lines \<noteq> []" by (rule js_join_nonempty)
  then have out: "out_category_scores (render_summary cats st (compute_scores cats st)) =
                  js_join ('' '' @ bullet @ '' '') ?lines"
    by (simp add: render_summary_def category_scores_display_def score_separator_def)
  have "map js_trim (js_split bullet (js_join ('' '' @ bullet @ '' '') ?lines)) = ?lines"
  proof (rule split_join_trim)
    show "\<forall>c\<in>set '' ''. js_space c" by (simp add: js_space_def)
    show "\<forall>x\<in>set ?lines. js_trim x = x \<and> \<not> sublist bullet ('' '' @ x @ '' '' @ butlast bullet)"
      using good by blast
  qed (use ne in \<open>simp_all add: js_space_def\<close>)
  with out show ?thesis by simp
qed

text \<open>C15. Splitting the displayed category line at the bullet and trimming the pieces,
  as the PDF export does, gives back exactly the per-category texts
  \<open>"<title>: <pct>%"\<close>, for every state and every non-empty catalog whose titles
  contain no bullet and do not start with white space.\<close>

theorem category_line_roundtrip:
  assumes "cats \<noteq> []"
    and "\<forall>c\<in>set cats. \<not> sublist bullet (title c) \<and> (title c = [] \<or> \<not> js_space (hd (title c)))"
  shows "map js_trim (js_split bullet (out_category_scores (render_summary cats st (compute_scores cats st))))
           = map category_score_text (category_percents (compute_scores cats st))"
  using assms by (rule displayed_category_line_split)

text \<open>C16. The overall score is displayed as the integer nearest to it (ties upwards),
  which lies between 0 and 100, followed by a percent sign.\<close>

theorem overall_display_bounds:
  "\<exists>k\<le>100. out_overall (render_summary cats st (compute_scores cats st)) = string_of_nat k @ ''%'' \<and>
          \<bar>of_nat k - overall (compute_scores cats st)\<bar> \<le> 1/2"
proof -
  let ?v = "overall (compute_scores cats st)"
  have b: "0 \<le> ?v" "?v \<le> 100" using overall_bounds by auto
  have "round_half_up 0 \<le> round_half_up ?v" "round_half_up ?v \<le> round_half_up 100"
    using b by (simp_all add: round_half_up_mono)
  then have r: "0 \<le> round_half_up ?v" "round_half_up ?v \<le> 100"
    using round_half_up_of_int [of 0] round_half_up_of_int [of 100] by simp_all
  let ?k = "nat (round_half_up ?v)"
  have "of_nat ?k = (of_int (round_half_up ?v) :: rat)" using r(1) by simp
  then have "\<bar>of_nat ?k - ?v\<bar> \<le> 1/2" using round_half_up_nearest [of ?v] by simp
  moreover have "out_overall (render_summary cats st (compute_scores cats st)) = string_of_nat ?k @ ''%''"
    using b by (simp add: render_summary_def to_fixed0_nonneg)
  moreover have "?k \<le> 100" using r(2) by simp
  ultimately show ?thesis by blast
qed

lemma all_clear_text_no_colon: "CHR '':'' \<notin> set all_clear_text"
  by (simp add: all_clear_text_def em_dash_def)

lemma outstanding_display_placeholder:
  "outstanding_display shown = [all_clear_text] \<longleftrightarrow> shown = []"
proof
  assume eq: "outstanding_display shown = [all_clear_text]"
  show "shown = []"
  proof (rule ccontr)
    assume "shown \<noteq> []"
    with eq obtain c l where "c @ '': '' @ l = all_clear_text"
      by (cases shown) (auto simp: outstanding_display_def)
    moreover have "CHR '':'' \<in> set (c @ '': '' @ l)" by simp
    ultimately have "CHR '':'' \<in> set all_clear_text" by simp
    with all_clear_text_no_colon show False by simp
  qed
qed (simp add: outstanding_display_def)

text \<open>C17. The outstanding list shows the all-clear placeholder exactly when every item
  of the catalog is checked (no outstanding entry can look like the placeholder).\<close>

theorem outstanding_placeholder_iff:
  "out_outstanding (render_summary cats st sc) = [all_clear_text] \<longleftrightarrow>
   (\<forall>iid\<in>set (all_item_ids cats). is_checked st iid)"
  by (simp add: render_summary_def outstanding_display_placeholder top_outstanding_Nil_conv)

section \<open>The colour class of the overall score\<close>

lemma string_of_nat_80: "string_of_nat 80 = ''80''"
  by code_simp

lemma to_fixed0_80_iff:
  assumes "0 \<le> x"
  shows "to_fixed0 x = ''80'' \<longleftrightarrow> 159/2 \<le> x \<and> x < 161/2"
proof -
  have r: "0 \<le> round_half_up x" using assms by (simp add: round_half_up_def)
  have "to_fixed0 x = ''80'' \<longleftrightarrow> nat (round_half_up x) = 80"
    by (simp only: to_fixed0_nonneg [OF assms] string_of_nat_80 [symmetric] string_of_nat_inj)
  also have "\<dots> \<longleftrightarrow> round_half_up x = 80" using r by linarith
  also have "\<dots> \<longleftrightarrow> 159/2 \<le> x \<and> x < 161/2" by (simp add: round_half_up_eq_iff)
  finally show ?thesis .
qed

text \<open>C18. The overall score is shown as "80%" in the warning colour exactly when it
  lies in [79.5, 80): the text (line 197) shows the score rounded by \<open>toFixed(0)\<close>,
  while the class (line 199) compares the unrounded score with 80. So a score the page
  prints as 80% is coloured as a warning instead of as good; for every catalog and
  state.\<close>

theorem overall_class_rounding_mismatch:
  "(out_overall (render_summary cats st (compute_scores cats st)) = ''80%'' \<and>
    out_overall_class (render_summary cats st (compute_scores cats st)) = ''value warn'') \<longleftrightarrow>
   (159/2 \<le> overall (compute_scores cats st) \<and> overall (compute_scores cats st) < 80)"
proof -
  let ?x = "overall (compute_scores cats st)"
  have "0 \<le> ?x" using overall_bounds [of cats st] by simp
  have "out_overall (render_summary cats st (compute_scores cats st)) = ''80%'' \<longleftrightarrow> to_fixed0 ?x = ''80''"
    by (simp add: render_summary_def)
  also have "\<dots> \<longleftrightarrow> 159/2 \<le> ?x \<and> ?x < 161/2" using \<open>0 \<le> ?x\<close> by (rule to_fixed0_80_iff)
  finally have "out_overall (render_summary cats st (compute_scores cats st)) = ''80%'' \<longleftrightarrow>
                159/2 \<le> ?x \<and> ?x < 161/2" .
  moreover have "out_overall_class (render_summary cats st (compute_scores cats st)) = ''value warn'' \<longleftrightarrow>
                 50 \<le> ?x \<and> ?x < 80"
    by (simp add: render_summary_def overall_class_def)
  ultimately show ?thesis by auto
qed

end
