(* ===== verification/Export.thy ===== *)
theory Export
  imports Summary
begin

text \<open>
  \<open>exportPDF\<close> of \<^verbatim>\<open>src/script.js\<close> (lines 290--321): the sequence of calls the
  function makes on the jsPDF document, in order. jsPDF is an external library
  (\<open>window.jspdf\<close>); the model records each \<open>setFontSize\<close>, \<open>text\<close> and
  \<open>save\<close> call with its arguments (positions in the library's default unit, millimetres
  on an A4 page). The function does not read the scores: it reads the summary fields
  back from the page, splitting the joined category line at the bullet and trimming
  the pieces. Proved: the category section lists exactly the per-category texts, the
  sixth category line is printed on the baseline of the next heading, and for the
  shipped catalog every line stays within the first page.
\<close>

datatype pdf_cmd =
    SetFontSize nat
  | PdfText js_string nat nat
  | PdfSave js_string

text \<open>Lines 307--310: one line per piece of the category text, 10 mm apart from y = 90.\<close>

definition category_lines :: "js_string \<Rightarrow> pdf_cmd list" where
  "category_lines txt =
     map (\<lambda>(i, s). PdfText (js_trim s) 20 (90 + i * 10)) (enumerate 0 (js_split bullet txt))"

text \<open>Lines 314--317: one line per list item, prefixed with a dash, 10 mm apart from y = 150.\<close>

definition outstanding_lines :: "js_string list \<Rightarrow> pdf_cmd list" where
  "outstanding_lines lis =
     map (\<lambda>(i, li). PdfText (''- '' @ li) 20 (150 + i * 10)) (enumerate 0 lis)"

definition pdf_header :: "summary_view \<Rightarrow> pdf_cmd list" where
  "pdf_header v =
     [SetFontSize 16, PdfText ''Website Audit Checklist Report'' 14 20,
      SetFontSize 12, PdfText ''Summary:'' 14 35,
      PdfText (''Completed: '' @ out_completed v @ '' / '' @ out_total v) 14 45,
      PdfText (''Overall Score: '' @ out_overall v) 14 55,
      PdfText (''Sections: '' @ out_sections v) 14 65,
      PdfText ''Category Scores:'' 14 80]"

definition export_pdf :: "summary_view \<Rightarrow> pdf_cmd list" where
  "export_pdf v =
     pdf_header v
     @ category_lines (out_category_scores v)
     @ [PdfText ''Outstanding Items:'' 14 140]
     @ outstanding_lines (out_outstanding v)
     @ [PdfSave ''website-audit-report.pdf'']"

section \<open>The category section\<close>

lemma map_enumerate_map:
  "map (\<lambda>(i, s). f i (g s)) (enumerate n xs) = map (\<lambda>(i, s). f i s) (enumerate n (map g xs))"
  by (induction xs arbitrary: n) auto

definition category_section :: "js_string list \<Rightarrow> pdf_cmd list" where
  "category_section lines = map (\<lambda>(i, s). PdfText s 20 (90 + i * 10)) (enumerate 0 lines)"

lemma category_lines_eq:
  "category_lines txt = category_section (map js_trim (js_split bullet txt))"
  unfolding category_lines_def category_section_def
  by (rule map_enumerate_map [where f = "\<lambda>i s. PdfText s 20 (90 + i * 10)"])

lemma export_pdf_eq:
  assumes "cats \<noteq> []"
    and "\<forall>c\<in>set cats. \<not> sublist bullet (title c) \<and> (title c = [] \<or> \<not> js_space (hd (title c)))"
  shows "export_pdf (render_summary cats st (compute_scores cats st)) =
           pdf_header (render_summary cats st (compute_scores cats st))
           @ category_section (map category_score_text (category_percents (compute_scores cats st)))
           @ [PdfText ''Outstanding Items:'' 14 140]
           @ outstanding_lines (outstanding_display (top_outstanding cats st))
           @ [PdfSave ''website-audit-report.pdf'']"
proof -
  let ?v = "render_summary cats st (compute_scores cats st)"
  have e1: "category_lines (out_category_scores ?v) =
            category_section (map category_score_text (category_percents (compute_scores cats st)))"
    by (simp only: category_lines_eq displayed_category_line_split [OF assms])
  have e2: "out_outstanding ?v = outstanding_display (top_outstanding cats st)"
    by (simp add: render_summary_def)
  show ?thesis by (simp only: export_pdf_def e1 e2)
qed

text \<open>C21. The export, although it re-reads the rendered page, issues exactly the commands
  of a report built from the scores themselves: the header, one line per category with
  its text \<open>"<title>: <pct>%"\<close> at y = 90, 100, ... in catalog order, the
  outstanding heading, one dashed line per displayed outstanding item, and the save;
  for every state and every non-empty catalog with plain titles.\<close>

theorem export_pdf_from_scores:
  assumes "cats \<noteq> []"
    and "\<forall>c\<in>set cats. \<not> sublist bullet (title c) \<and> (title c = [] \<or> \<not> js_space (hd (title c)))"
  shows "export_pdf (render_summary cats st (compute_scores cats st)) =
           pdf_header (render_summary cats st (compute_scores cats st))
           @ category_section (map category_score_text (category_percents (compute_scores cats st)))
           @ [PdfText ''Outstanding Items:'' 14 140]
           @ outstanding_lines (outstanding_display (top_outstanding cats st))
           @ [PdfSave ''website-audit-report.pdf'']"
  using assms by (rule export_pdf_eq)

section \<open>Layout\<close>

text \<open>C22. With six or more categories (the shipped catalog has six), the sixth category
  line is printed at y = 140, the baseline of the "Outstanding Items:" heading (line 313),
  so the two texts overlap on the page; for every state.\<close>

theorem export_sixth_category_overlaps_heading:
  assumes "6 \<le> length cats"
    and "\<forall>c\<in>set cats. \<not> sublist bullet (title c) \<and> (title c = [] \<or> \<not> js_space (hd (title c)))"
  shows "PdfText (category_score_text (category_percents (compute_scores cats st) ! 5)) 20 140
           \<in> set (export_pdf (render_summary cats st (compute_scores cats st))) \<and>
         PdfText ''Outstanding Items:'' 14 140
           \<in> set (export_pdf (render_summary cats st (compute_scores cats st)))"
proof -
  have ne: "cats \<noteq> []" using assms(1) by auto
  let ?lines = "map category_score_text (category_percents (compute_scores cats st))"
  have "(5, ?lines ! 5) \<in> set (enumerate 0 ?lines)"
    using assms(1) by (simp add: in_set_enumerate_eq)
  then have "PdfText (?lines ! 5) 20 (90 + 5 * 10) \<in> set (category_section ?lines)"
    unfolding category_section_def by force
  moreover have "?lines ! 5 = category_score_text (category_percents (compute_scores cats st) ! 5)"
    using assms(1) by simp
  ultimately show ?thesis by (simp add: export_pdf_eq [OF ne assms(2)])
qed

fun text_ys :: "pdf_cmd list \<Rightarrow> nat list" where
  "text_ys [] = []"
| "text_ys (PdfText t x y # cs) = y # text_ys cs"
| "text_ys (SetFontSize k # cs) = text_ys cs"
| "text_ys (PdfSave f # cs) = text_ys cs"

lemma text_ys_append [simp]: "text_ys (xs @ ys) = text_ys xs @ text_ys ys"
  by (induction xs rule: text_ys.induct) simp_all

lemma text_ys_enumerate:
  "text_ys (map (\<lambda>(i, s). PdfText (f s) x (b + i * 10)) (enumerate 0 xs)) =
   map (\<lambda>i. b + i * 10) [0..<length xs]"
proof -
  have "text_ys (map (\<lambda>(i, s). PdfText (f s) x (b + i * 10)) (enumerate n xs)) =
        map (\<lambda>i. b + i * 10) [n..<n + length xs]" for n
    by (induction xs arbitrary: n) (simp_all add: upt_rec)
  from this [of 0] show ?thesis by simp
qed

lemma outstanding_display_length:
  "length (outstanding_display (top_outstanding cats st)) \<le> 6"
  by (simp add: outstanding_display_def top_outstanding_def outstanding_limit_def)

text \<open>C23. Every line of the report is printed between y = 20 and y = max(200, 80 + 10 k)
  for a catalog of k categories: at most six outstanding lines follow the heading at
  y = 140. For the shipped catalog (k = 6) everything stays above y = 200 on the
  297 mm page.\<close>

theorem export_text_ys_bounds:
  assumes "cats \<noteq> []"
    and "\<forall>c\<in>set cats. \<not> sublist bullet (title c) \<and> (title c = [] \<or> \<not> js_space (hd (title c)))"
    and "y \<in> set (text_ys (export_pdf (render_summary cats st (compute_scores cats st))))"
  shows "20 \<le> y \<and> y \<le> max 200 (80 + 10 * length cats)"
proof -
  let ?lines = "map category_score_text (category_percents (compute_scores cats st))"
  let ?lis = "outstanding_display (top_outstanding cats st)"
  have "text_ys (category_section ?lines) = map (\<lambda>i. 90 + i * 10) [0..<length cats]"
    using text_ys_enumerate [of id 20 90 ?lines] by (simp add: category_section_def)
  moreover have "text_ys (outstanding_lines ?lis) = map (\<lambda>i. 150 + i * 10) [0..<length ?lis]"
    using text_ys_enumerate [of "\<lambda>li. ''- '' @ li" 20 150 ?lis] by (simp add: outstanding_lines_def)
  moreover note outstanding_display_length [of cats st]
  ultimately show ?thesis
    using assms(3) by (auto simp: export_pdf_eq [OF assms(1,2)] pdf_header_def)
qed

end
