(* ===== verification/Chart.thy ===== *)
theory Chart
  imports Scoring Format
begin

text \<open>
  \<open>drawChart\<close> of \<^verbatim>\<open>src/script.js\<close> (lines 222--259): the bar chart drawn into a
  600 by 240 SVG surface with a padding of 32. Each drawn element is modelled by its
  geometry and its text; stroke widths and the colours read from CSS custom properties
  (\<open>getComputedStyle\<close>) are presentation and are left out. The lemmas show that
  a bar's height is its percentage of the plot height, that every bar of a percentage in [0, 100] lies inside the plot area, and
  that the bars are ordered left to right without overlapping.
\<close>

section \<open>Geometry\<close>

definition chart_w :: js_number where "chart_w = 600"
definition chart_h :: js_number where "chart_h = 240"
definition chart_pad :: js_number where "chart_pad = 32"
definition max_y :: js_number where "max_y = 100"

lemmas chart_consts = chart_w_def chart_h_def chart_pad_def max_y_def

text \<open>
  Lines 229--230. With no bars \<open>n = 0\<close> and JavaScript computes \<open>Infinity\<close> and
  \<open>NaN\<close> here, while HOL's division by zero gives 0; neither value is used, since
  no bar is drawn.
\<close>

definition bar_width :: "nat \<Rightarrow> js_number" where
  "bar_width n = (chart_w - 2 * chart_pad) / of_nat n * (7 / 10)"

definition bar_gap :: "nat \<Rightarrow> js_number" where
  "bar_gap n = (chart_w - 2 * chart_pad) / of_nat n - bar_width n"

text \<open>Lines 232--233: \<open>xMap\<close> and \<open>yMap\<close>.\<close>

definition x_map :: "nat \<Rightarrow> nat \<Rightarrow> js_number" where
  "x_map n i = chart_pad + of_nat i * (bar_width n + bar_gap n) + bar_gap n / 2"

definition y_map :: "js_number \<Rightarrow> js_number" where
  "y_map v = chart_h - chart_pad - (v / max_y) * (chart_h - 2 * chart_pad)"

section \<open>The drawn elements\<close>

datatype svg_elem =
    SvgLine js_number js_number js_number js_number
  | SvgRect js_number js_number js_number js_number js_string
  | SvgText js_number js_number js_string

text \<open>Line 254: \<open>b.title.split(" ")[0]\<close>; \<open>split\<close> never returns an empty array.\<close>

definition first_word :: "js_string \<Rightarrow> js_string" where
  "first_word s = (case js_split '' '' s of [] \<Rightarrow> [] | w # _ \<Rightarrow> w)"

text \<open>Lines 245--255: the rectangle with its tooltip and the two labels of bar \<open>i\<close>.\<close>

definition bar_elems :: "nat \<Rightarrow> nat \<Rightarrow> cat_percent \<Rightarrow> svg_elem list" where
  "bar_elems n i b =
     (let x = x_map n i; y = y_map (pct b); hBar = (chart_h - chart_pad) - y
      in [SvgRect x y (bar_width n) hBar (pct_title b @ '': '' @ to_fixed0 (pct b) @ ''%''),
          SvgText (x + bar_width n / 2) (chart_h - chart_pad + 14) (first_word (pct_title b)),
          SvgText (x + bar_width n / 2) (y - 4) (to_fixed0 (pct b) @ ''%'')])"

text \<open>Lines 235--258: the two axes, the dashed line at 50 percent, then the bars in order.\<close>

definition draw_chart :: "cat_percent list \<Rightarrow> svg_elem list" where
  "draw_chart bars =
     (let n = length bars in
      [SvgLine chart_pad (chart_h - chart_pad) (chart_w - chart_pad) (chart_h - chart_pad),
       SvgLine chart_pad chart_pad chart_pad (chart_h - chart_pad),
       SvgLine chart_pad (y_map 50) (chart_w - chart_pad) (y_map 50)]
      @ concat (map (\<lambda>(i, b). bar_elems n i b) (enumerate 0 bars)))"

section \<open>The vertical mapping\<close>

lemma bar_height_eq: "(chart_h - chart_pad) - y_map v = v / 100 * (chart_h - 2 * chart_pad)"
  by (simp add: y_map_def chart_consts)

lemma y_map_bounds:
  "0 \<le> v \<Longrightarrow> v \<le> 100 \<Longrightarrow> chart_pad \<le> y_map v \<and> y_map v \<le> chart_h - chart_pad"
  by (simp add: y_map_def chart_consts)

section \<open>The horizontal slots\<close>

lemma slot_eq: "0 < n \<Longrightarrow> bar_width n + bar_gap n = 536 / of_nat n"
  by (simp add: bar_width_def bar_gap_def chart_consts)

lemma x_map_eq:
  "0 < n \<Longrightarrow> x_map n i = 32 + (of_nat i + 3 / 20) * (536 / of_nat n)"
  by (simp add: x_map_def bar_width_def bar_gap_def chart_consts field_simps)

lemma bar_width_eq: "0 < n \<Longrightarrow> bar_width n = 7 / 10 * (536 / of_nat n)"
  by (simp add: bar_width_def chart_consts)

lemma slot_facts:
  assumes "0 < n"
  defines "s \<equiv> 536 / (of_nat n :: rat)"
  shows "x_map n i = 32 + (of_nat i + 3 / 20) * s \<and> bar_width n = 7 / 10 * s \<and>
         of_nat n * s = 536 \<and> 0 < s"
  using assms by (simp add: x_map_eq bar_width_eq)

lemma bar_in_plot_x:
  assumes "i < n"
  shows "chart_pad \<le> x_map n i \<and> x_map n i + bar_width n \<le> chart_w - chart_pad"
proof -
  define s where "s = 536 / (of_nat n :: rat)"
  have f: "x_map n i = 32 + (of_nat i + 3 / 20) * s" "bar_width n = 7 / 10 * s"
    "of_nat n * s = 536" "0 < s"
    using slot_facts [of n i] assms unfolding s_def by auto
  have "of_nat i + 17 / 20 \<le> (of_nat n :: rat)" using assms by linarith
  then have "(of_nat i + 17 / 20) * s \<le> of_nat n * s" using f(4) by (simp add: mult_right_mono)
  moreover have "x_map n i + bar_width n = 32 + (of_nat i + 17 / 20) * s"
    using f(1,2) by (simp add: algebra_simps)
  moreover have "0 \<le> (of_nat i + 3 / 20) * s" using f(4) by simp
  ultimately show ?thesis using f(1,3) by (simp add: chart_consts)
qed

lemma bars_disjoint:
  assumes "i < j" and "j < n"
  shows "x_map n i + bar_width n < x_map n j"
proof -
  define s where "s = 536 / (of_nat n :: rat)"
  have fi: "x_map n i = 32 + (of_nat i + 3 / 20) * s" "bar_width n = 7 / 10 * s" "0 < s"
    using slot_facts [of n i] assms unfolding s_def by auto
  have fj: "x_map n j = 32 + (of_nat j + 3 / 20) * s"
    using slot_facts [of n j] assms unfolding s_def by auto
  have "of_nat i + 17 / 20 < (of_nat j + 3 / 20 :: rat)" using assms(1) by linarith
  then have "(of_nat i + 17 / 20) * s < (of_nat j + 3 / 20) * s" using fi(3) by simp
  moreover have "x_map n i + bar_width n = 32 + (of_nat i + 17 / 20) * s"
    using fi(1,2) by (simp add: algebra_simps)
  ultimately show ?thesis using fj by simp
qed

section \<open>The drawn bars\<close>

lemma draw_chart_rect:
  assumes "SvgRect x y bw bh t \<in> set (draw_chart bars)"
  shows "\<exists>i<length bars. x = x_map (length bars) i \<and> y = y_map (pct (bars ! i)) \<and>
           bw = bar_width (length bars) \<and> bh = (chart_h - chart_pad) - y_map (pct (bars ! i))"
proof -
  from assms obtain p where p: "p \<in> set (enumerate 0 bars)"
    and r: "SvgRect x y bw bh t \<in> set (bar_elems (length bars) (fst p) (snd p))"
    by (auto simp: draw_chart_def Let_def)
  from p have "fst p < length bars" and "snd p = bars ! fst p"
    by (simp_all add: in_set_enumerate_eq)
  with r show ?thesis by (auto simp: bar_elems_def Let_def)
qed

lemma rect_in_plot:
  assumes "\<forall>b\<in>set bars. 0 \<le> pct b \<and> pct b \<le> 100"
    and "SvgRect x y bw bh t \<in> set (draw_chart bars)"
  shows "chart_pad \<le> x \<and> x + bw \<le> chart_w - chart_pad \<and>
         chart_pad \<le> y \<and> 0 \<le> bh \<and> y + bh = chart_h - chart_pad"
proof -
  from draw_chart_rect [OF assms(2)] obtain i where i: "i < length bars"
    and eq: "x = x_map (length bars) i" "y = y_map (pct (bars ! i))" "bw = bar_width (length bars)"
            "bh = (chart_h - chart_pad) - y_map (pct (bars ! i))"
    by blast
  from i assms(1) have "0 \<le> pct (bars ! i)" "pct (bars ! i) \<le> 100" by auto
  then have "chart_pad \<le> y \<and> y \<le> chart_h - chart_pad" using eq(2) by (simp add: y_map_bounds)
  with bar_in_plot_x [OF i] eq show ?thesis by simp
qed

text \<open>C19. Every bar of the chart drawn for the computed scores lies inside the plot
  area: horizontally within the padding, vertically between the top boundary and the
  baseline, with a non-negative height reaching down to the baseline; for every
  catalog and every state.\<close>

theorem chart_bars_in_plot:
  assumes "SvgRect x y bw bh t \<in> set (draw_chart (category_percents (compute_scores cats st)))"
  shows "chart_pad \<le> x \<and> x + bw \<le> chart_w - chart_pad \<and>
         chart_pad \<le> y \<and> 0 \<le> bh \<and> y + bh = chart_h - chart_pad"
  using rect_in_plot [OF _ assms] category_pct_bounds by blast

fun rect_xs :: "svg_elem list \<Rightarrow> js_number list" where
  "rect_xs [] = []"
| "rect_xs (SvgRect x y w h t # es) = x # rect_xs es"
| "rect_xs (SvgLine a b c d # es) = rect_xs es"
| "rect_xs (SvgText a b t # es) = rect_xs es"

lemma rect_xs_append [simp]: "rect_xs (xs @ ys) = rect_xs xs @ rect_xs ys"
  by (induction xs rule: rect_xs.induct) simp_all

lemma rect_xs_concat: "rect_xs (concat xss) = concat (map rect_xs xss)"
  by (induction xss) simp_all

text \<open>C20. The bars are drawn in category order, bar \<open>i\<close> in slot \<open>i\<close>, and each
  bar ends before the next one starts.\<close>

theorem chart_bars_ordered:
  "rect_xs (draw_chart bars) = map (x_map (length bars)) [0..<length bars] \<and>
   (\<forall>i j. i < j \<and> j < length bars \<longrightarrow> x_map (length bars) i + bar_width (length bars) < x_map (length bars) j)"
proof -
  have "rect_xs (draw_chart bars) = map (\<lambda>p. x_map (length bars) (fst p)) (enumerate 0 bars)"
    by (simp add: draw_chart_def Let_def rect_xs_concat bar_elems_def case_prod_beta o_def
        map_concat [symmetric] concat_map_singleton)
  also have "\<dots> = map (x_map (length bars)) (map fst (enumerate 0 bars))"
    by (simp only: map_map o_def)
  also have "map fst (enumerate 0 bars) = [0..<length bars]"
    by (simp add: map_fst_enumerate)
  finally show ?thesis using bars_disjoint by blast
qed

end
