(* ===== verification/Page.thy ===== *)
theory Page
  imports Export Chart
begin

text \<open>
  The page as a state machine. Its state joins the script's \<open>state\<close> object with the
  parts of the DOM the script writes and reads: the \<open>checked\<close> flag of each item's
  checkbox, the value of each category's notes textarea, the \<open>open\<close> class of each
  section body, the summary fields and the chart. Its steps are the user events the
  script listens to (lines 128--155 and 285--287), each running its handler to
  completion: the browser toggles a clicked checkbox before the \<open>change\<close> listener
  runs, the listener stores the new value and calls \<open>updateSummary\<close> (lines 262--266);
  typing into a textarea stores its value without redrawing; a header click toggles its
  section; \<open>expandAll\<close>, \<open>collapseAll\<close> and \<open>clearAll\<close> (lines 269--279) act on
  all sections or all checkboxes. The start state is the one \<open>renderChecklist\<close> and the
  first \<open>updateSummary\<close> leave (lines 282--283). An event exists only for elements the
  page has: the checkboxes and textareas of the catalog and its section headers.
  The invariant proved for every reachable page: no check key outside the catalog, each
  checkbox shows its item's check, each textarea its category's note, the summary and
  the chart are those of the current scores, and there is one open flag per section.
\<close>

section \<open>Page state and events\<close>

record page =
  core :: app_state
  cb_checked :: "js_string \<Rightarrow> bool"
  ta_value :: "js_string \<Rightarrow> js_string"
  open_sections :: "bool list"
  view :: summary_view
  chart :: "svg_elem list"

datatype ui_event =
    CheckboxClick js_string
  | NoteInput js_string js_string
  | HeaderClick nat
  | ExpandAll
  | CollapseAll
  | ClearAll

text \<open>\<open>updateSummary\<close>: compute the scores once, render the summary and the chart.\<close>

definition update_summary :: "category list \<Rightarrow> page \<Rightarrow> page" where
  "update_summary cats p =
     (let scores = compute_scores cats (core p)
      in p\<lparr>view := render_summary cats (core p) scores,
           chart := draw_chart (category_percents scores)\<rparr>)"

text \<open>Lines 142--147: the click flips \<open>cb.checked\<close>; the listener stores it and redraws.\<close>

definition checkbox_click :: "category list \<Rightarrow> js_string \<Rightarrow> page \<Rightarrow> page" where
  "checkbox_click cats iid p =
     (let b = \<not> cb_checked p iid
      in update_summary cats
           (p\<lparr>cb_checked := (cb_checked p)(iid := b), core := set_item_checked iid b (core p)\<rparr>))"

text \<open>Lines 150--155: the textarea holds the typed text; the listener stores it.\<close>

definition note_input :: "js_string \<Rightarrow> js_string \<Rightarrow> page \<Rightarrow> page" where
  "note_input cid txt p =
     p\<lparr>ta_value := (ta_value p)(cid := txt), core := set_category_note cid txt (core p)\<rparr>"

text \<open>Lines 129--134: \<open>body.classList.toggle("open")\<close> on the clicked section.\<close>

definition header_click :: "nat \<Rightarrow> page \<Rightarrow> page" where
  "header_click i p = p\<lparr>open_sections := (open_sections p)[i := \<not> open_sections p ! i]\<rparr>"

definition expand_all :: "page \<Rightarrow> page" where
  "expand_all p = p\<lparr>open_sections := map (\<lambda>_. True) (open_sections p)\<rparr>"

definition collapse_all :: "page \<Rightarrow> page" where
  "collapse_all p = p\<lparr>open_sections := map (\<lambda>_. False) (open_sections p)\<rparr>"

text \<open>Lines 275--279: clear the stored checks, uncheck every box, redraw.\<close>

definition clear_all :: "category list \<Rightarrow> page \<Rightarrow> page" where
  "clear_all cats p =
     update_summary cats (p\<lparr>core := clear_all_checks (core p), cb_checked := (\<lambda>_. False)\<rparr>)"

fun dispatch :: "category list \<Rightarrow> page \<Rightarrow> ui_event \<Rightarrow> page" where
  "dispatch cats p (CheckboxClick iid) = checkbox_click cats iid p"
| "dispatch cats p (NoteInput cid txt) = note_input cid txt p"
| "dispatch cats p (HeaderClick i) = header_click i p"
| "dispatch cats p ExpandAll = expand_all p"
| "dispatch cats p CollapseAll = collapse_all p"
| "dispatch cats p ClearAll = clear_all cats p"

text \<open>The elements an event can come from: catalog checkboxes, catalog textareas,
  rendered section headers, and the three buttons.\<close>

fun event_enabled :: "category list \<Rightarrow> ui_event \<Rightarrow> bool" where
  "event_enabled cats (CheckboxClick iid) = (iid \<in> set (all_item_ids cats))"
| "event_enabled cats (NoteInput cid txt) = (cid \<in> set (map cat_id cats))"
| "event_enabled cats (HeaderClick i) = (i < length cats)"
| "event_enabled cats ExpandAll = True"
| "event_enabled cats CollapseAll = True"
| "event_enabled cats ClearAll = True"

text \<open>Lines 282--283: the rendered checklist (boxes unchecked, textareas empty, the first
  two sections open, lines 136--139) and the first summary.\<close>

definition rendered_page :: "category list \<Rightarrow> page" where
  "rendered_page cats =
     \<lparr>core = init_state, cb_checked = (\<lambda>_. False), ta_value = (\<lambda>_. []),
      open_sections = map (\<lambda>i. i < 2) [0..<length cats],
      view = \<lparr>out_completed = [], out_total = [], out_overall = [], out_overall_class = [],
              out_sections = [], out_category_scores = [], out_outstanding = []\<rparr>,
      chart = []\<rparr>"

definition init_page :: "category list \<Rightarrow> page" where
  "init_page cats = update_summary cats (rendered_page cats)"

inductive reachable :: "category list \<Rightarrow> page \<Rightarrow> bool" where
  start: "reachable cats (init_page cats)"
| step: "reachable cats p \<Longrightarrow> event_enabled cats ev \<Longrightarrow> reachable cats (dispatch cats p ev)"

text \<open>A session as a list of events, run from the start page.\<close>

definition run :: "category list \<Rightarrow> ui_event list \<Rightarrow> page" where
  "run cats evs = fold (\<lambda>ev p. dispatch cats p ev) evs (init_page cats)"

text \<open>The invariant of the page: what every handler keeps.\<close>

definition page_inv :: "category list \<Rightarrow> page \<Rightarrow> bool" where
  "page_inv cats p \<longleftrightarrow>
     dom (checks (core p)) \<subseteq> set (all_item_ids cats) \<and>
     (\<forall>iid\<in>set (all_item_ids cats). cb_checked p iid = is_checked (core p) iid) \<and>
     dom (cat_notes (core p)) \<subseteq> set (map cat_id cats) \<and>
     (\<forall>cid. ta_value p cid = (case cat_notes (core p) cid of None \<Rightarrow> [] | Some t \<Rightarrow> t)) \<and>
     view p = render_summary cats (core p) (compute_scores cats (core p)) \<and>
     chart p = draw_chart (category_percents (compute_scores cats (core p))) \<and>
     length (open_sections p) = length cats"

section \<open>The page invariant and its preservation\<close>

lemma update_summary_fields [simp]:
  "core (update_summary cats p) = core p" "cb_checked (update_summary cats p) = cb_checked p"
  "ta_value (update_summary cats p) = ta_value p" "open_sections (update_summary cats p) = open_sections p"
  "view (update_summary cats p) = render_summary cats (core p) (compute_scores cats (core p))"
  "chart (update_summary cats p) = draw_chart (category_percents (compute_scores cats (core p)))"
  by (simp_all add: update_summary_def Let_def)

text \<open>The summary reads the state only through the checks.\<close>

lemma outstanding_cong:
  "checks st = checks st' \<Longrightarrow> top_outstanding cats st = top_outstanding cats st'"
  by (simp add: top_outstanding_def outstanding_def)

lemma render_summary_cong:
  "checks st = checks st' \<Longrightarrow> render_summary cats st sc = render_summary cats st' sc"
  unfolding render_summary_def by (drule outstanding_cong [of _ _ cats]) simp

lemma compute_scores_checks_cong:
  "checks st = checks st' \<Longrightarrow> compute_scores cats st = compute_scores cats st'"
  by (rule compute_scores_cong) (simp add: is_checked_def)

lemma inv_init: "page_inv cats (init_page cats)"
  by (simp add: page_inv_def init_page_def rendered_page_def init_state_def is_checked_def)

lemma inv_checkbox_click:
  assumes "page_inv cats p" and "iid \<in> set (all_item_ids cats)"
  shows "page_inv cats (checkbox_click cats iid p)"
  using assms by (auto simp: page_inv_def checkbox_click_def set_item_checked_def is_checked_def Let_def)

lemma inv_note_input:
  assumes "page_inv cats p" and "cid \<in> set (map cat_id cats)"
  shows "page_inv cats (note_input cid txt p)"
proof -
  have c: "checks (set_category_note cid txt (core p)) = checks (core p)"
    by (simp add: set_category_note_def)
  show ?thesis
    using assms render_summary_cong [OF c] compute_scores_checks_cong [OF c]
    by (auto simp: page_inv_def note_input_def set_category_note_def is_checked_def)
qed

lemma inv_sections:
  "page_inv cats p \<Longrightarrow> length xs = length (open_sections p) \<Longrightarrow>
   page_inv cats (p\<lparr>open_sections := xs\<rparr>)"
  by (simp add: page_inv_def)

lemma inv_clear_all:
  assumes "page_inv cats p"
  shows "page_inv cats (clear_all cats p)"
  using assms by (simp add: page_inv_def clear_all_def is_checked_clear)

lemma inv_dispatch:
  assumes "page_inv cats p" and "event_enabled cats ev"
  shows "page_inv cats (dispatch cats p ev)"
  using assms
  by (cases ev) (auto intro: inv_checkbox_click inv_note_input inv_sections inv_clear_all
      simp: header_click_def expand_all_def collapse_all_def)

lemma reachable_inv: "reachable cats p \<Longrightarrow> page_inv cats p"
proof (induction rule: reachable.induct)
  case (start cats)
  show ?case by (rule inv_init)
next
  case (step cats p ev)
  from step.IH step.hyps(2) show ?case by (rule inv_dispatch)
qed

section \<open>What holds on every reachable page\<close>

text \<open>C24. No orphan keys: in every reachable page the check object holds only item ids
  of the catalog and the note object only category ids (the spec's data-model
  invariant), although the listeners themselves store any id they are given.\<close>

theorem reachable_no_orphan_keys:
  "reachable cats p \<Longrightarrow>
   dom (checks (core p)) \<subseteq> set (all_item_ids cats) \<and> dom (cat_notes (core p)) \<subseteq> cat_id ` set cats"
  by (drule reachable_inv) (simp add: page_inv_def)

text \<open>C25. Sequential consistency: in every reachable page the summary fields and the chart
  show exactly the scores of the current state, although typing a note does not redraw.\<close>

theorem reachable_summary_current:
  "reachable cats p \<Longrightarrow>
   view p = render_summary cats (core p) (compute_scores cats (core p)) \<and>
   chart p = draw_chart (category_percents (compute_scores cats (core p)))"
  by (drule reachable_inv) (simp add: page_inv_def)

text \<open>C26. In every reachable page each catalog checkbox is ticked exactly when its item
  counts as checked, and each textarea shows its category's stored note (empty if none).\<close>

theorem reachable_controls_match_state:
  "reachable cats p \<Longrightarrow>
   (\<forall>iid\<in>set (all_item_ids cats). cb_checked p iid = is_checked (core p) iid) \<and>
   (\<forall>cid. ta_value p cid = (case cat_notes (core p) cid of None \<Rightarrow> [] | Some t \<Rightarrow> t))"
  by (drule reachable_inv) (simp add: page_inv_def)

text \<open>C27. Exporting from any reachable page prints the report of the current scores:
  the header read from the summary, one line per category text in catalog order, the
  heading, the displayed outstanding items and the save (for a non-empty catalog with
  plain titles).\<close>

theorem reachable_export_report:
  assumes "reachable cats p" and "cats \<noteq> []"
    and "\<forall>c\<in>set cats. \<not> sublist bullet (title c) \<and> (title c = [] \<or> \<not> js_space (hd (title c)))"
  shows "export_pdf (view p) =
           pdf_header (view p)
           @ category_section (map category_score_text (category_percents (compute_scores cats (core p))))
           @ [PdfText ''Outstanding Items:'' 14 140]
           @ outstanding_lines (outstanding_display (top_outstanding cats (core p)))
           @ [PdfSave ''website-audit-report.pdf'']"
proof -
  have "view p = render_summary cats (core p) (compute_scores cats (core p))"
    using reachable_inv [OF assms(1)] by (simp add: page_inv_def)
  then show ?thesis using export_pdf_eq [OF assms(2,3), of "core p"] by simp
qed

section \<open>Single events\<close>

lemma top_outstanding_is_checked_cong:
  "(\<forall>iid. is_checked st iid = is_checked st' iid) \<Longrightarrow> top_outstanding cats st = top_outstanding cats st'"
  by (simp add: top_outstanding_def outstanding_eq)

lemma render_summary_is_checked_cong:
  assumes "\<forall>iid. is_checked st iid = is_checked st' iid"
  shows "render_summary cats st (compute_scores cats st) = render_summary cats st' (compute_scores cats st')"
proof -
  have "compute_scores cats st = compute_scores cats st'" using assms by (intro compute_scores_cong) simp
  with top_outstanding_is_checked_cong [OF assms, of cats] show ?thesis
    by (simp add: render_summary_def)
qed

lemma is_checked_init_clear: "is_checked (clear_all_checks st) iid = is_checked init_state iid"
  using is_checked_clear [of st iid] by (simp add: init_state_def is_checked_def)

text \<open>C28. The clear-all button returns the summary and the chart to those of the freshly
  loaded page and unticks every checkbox, while the notes, the textareas and the open
  sections stay as they were (from any page).\<close>

theorem clear_all_resets_display:
  "view (dispatch cats p ClearAll) = view (init_page cats) \<and>
   chart (dispatch cats p ClearAll) = chart (init_page cats) \<and>
   (\<forall>iid. \<not> cb_checked (dispatch cats p ClearAll) iid) \<and>
   cat_notes (core (dispatch cats p ClearAll)) = cat_notes (core p) \<and>
   ta_value (dispatch cats p ClearAll) = ta_value p \<and>
   open_sections (dispatch cats p ClearAll) = open_sections p"
proof -
  have "\<forall>iid. is_checked (clear_all_checks (core p)) iid = is_checked init_state iid"
    by (simp add: is_checked_init_clear)
  note eq = render_summary_is_checked_cong [OF this, of cats]
  have sc: "compute_scores cats (clear_all_checks (core p)) = compute_scores cats init_state"
    by (rule compute_scores_cong) (simp add: is_checked_init_clear)
  have "render_summary cats (clear_all_checks (core p)) (compute_scores cats init_state)
        = render_summary cats init_state (compute_scores cats init_state)"
    using eq sc by simp
  then show ?thesis
    by (simp add: clear_all_def init_page_def rendered_page_def sc)
qed

text \<open>C29. Section controls on a reachable page, for sections i and j of the catalog:
  a header click toggles the clicked section and no other, and changes nothing but the
  open flags; expand opens and collapse closes every section; the loaded page has
  exactly the first two sections open (line 138).\<close>

theorem section_controls:
  assumes "reachable cats p" and "i < length cats" and "j < length cats"
  shows "open_sections (header_click i p) ! j = (if j = i then \<not> open_sections p ! j else open_sections p ! j) \<and>
         (header_click i p)\<lparr>open_sections := open_sections p\<rparr> = p \<and>
         open_sections (expand_all p) ! j \<and> \<not> open_sections (collapse_all p) ! j \<and>
         open_sections (init_page cats) ! j = (j < 2)"
proof -
  have "length (open_sections p) = length cats"
    using reachable_inv [OF assms(1)] by (simp add: page_inv_def)
  with assms(2,3) show ?thesis
    by (simp add: header_click_def expand_all_def collapse_all_def init_page_def rendered_page_def)
qed

section \<open>Interleavings\<close>

lemma update_summary_note_input:
  "update_summary cats (note_input cid txt p) = note_input cid txt (update_summary cats p)"
proof -
  have c: "checks (set_category_note cid txt (core p)) = checks (core p)"
    by (simp add: set_category_note_def)
  show ?thesis
    using render_summary_cong [OF c] compute_scores_checks_cong [OF c]
    by (simp add: update_summary_def note_input_def Let_def)
qed

lemma note_input_checkbox_swap:
  "note_input cid txt p\<lparr>cb_checked := f, core := set_item_checked iid b (core (note_input cid txt p))\<rparr>
   = note_input cid txt (p\<lparr>cb_checked := f, core := set_item_checked iid b (core p)\<rparr>)"
  by (simp add: note_input_def set_item_checked_def set_category_note_def)

lemma note_input_clear_swap:
  "note_input cid txt p\<lparr>core := clear_all_checks (core (note_input cid txt p)), cb_checked := f\<rparr>
   = note_input cid txt (p\<lparr>core := clear_all_checks (core p), cb_checked := f\<rparr>)"
  by (simp add: note_input_def clear_all_checks_def set_category_note_def)

text \<open>C30. Typing a note commutes with ticking a checkbox and with clearing all checks:
  either order of the two events leads to the same page (state, controls, summary and
  chart), from any page. The order in which listeners fire therefore does not matter
  between notes and checks.\<close>

theorem note_input_commutes:
  "dispatch cats (dispatch cats p (NoteInput cid txt)) (CheckboxClick iid) =
     dispatch cats (dispatch cats p (CheckboxClick iid)) (NoteInput cid txt) \<and>
   dispatch cats (dispatch cats p (NoteInput cid txt)) ClearAll =
     dispatch cats (dispatch cats p ClearAll) (NoteInput cid txt)"
proof -
  have cb: "cb_checked (note_input cid txt p) = cb_checked p"
    by (simp add: note_input_def)
  show ?thesis
    by (simp add: checkbox_click_def clear_all_def Let_def cb note_input_checkbox_swap
        note_input_clear_swap update_summary_note_input)
qed

text \<open>C31. Clicking a catalog checkbox twice on a reachable page gives back the page's
  checkboxes, summary and chart: the second click undoes the first, although the state
  now holds an explicit \<open>false\<close> where it may have had no key.\<close>

theorem checkbox_double_click:
  assumes "reachable cats p" and "iid \<in> set (all_item_ids cats)"
  shows "cb_checked (checkbox_click cats iid (checkbox_click cats iid p)) = cb_checked p \<and>
         view (checkbox_click cats iid (checkbox_click cats iid p)) = view p \<and>
         chart (checkbox_click cats iid (checkbox_click cats iid p)) = chart p"
proof -
  let ?q = "checkbox_click cats iid (checkbox_click cats iid p)"
  have inv: "page_inv cats p" using assms(1) by (rule reachable_inv)
  have cb: "cb_checked ?q = cb_checked p"
    by (simp add: checkbox_click_def Let_def)
  have ck: "\<forall>j. is_checked (core ?q) j = is_checked (core p) j"
    using inv assms(2)
    by (simp add: page_inv_def checkbox_click_def Let_def set_item_checked_def is_checked_def)
  have "compute_scores cats (core ?q) = compute_scores cats (core p)"
    using ck by (intro compute_scores_cong) simp
  with render_summary_is_checked_cong [OF ck, of cats] inv show ?thesis
    by (simp add: cb page_inv_def checkbox_click_def Let_def)
qed

section \<open>Sessions\<close>

lemma run_snoc: "run cats (evs @ [ev]) = dispatch cats (run cats evs) ev"
  by (simp add: run_def)

text \<open>The reachable pages are the runs of event lists on existing elements.\<close>

lemma reachable_iff_run:
  "reachable cats p \<longleftrightarrow> (\<exists>evs. list_all (event_enabled cats) evs \<and> p = run cats evs)"
proof
  assume "reachable cats p"
  then show "\<exists>evs. list_all (event_enabled cats) evs \<and> p = run cats evs"
  proof (induction rule: reachable.induct)
    case (start cats)
    have "list_all (event_enabled cats) [] \<and> init_page cats = run cats []" by (simp add: run_def)
    then show ?case by blast
  next
    case (step cats p ev)
    then obtain evs where "list_all (event_enabled cats) evs" "p = run cats evs" by blast
    with step.hyps(2) have "list_all (event_enabled cats) (evs @ [ev]) \<and>
                            dispatch cats p ev = run cats (evs @ [ev])"
      by (simp add: run_snoc)
    then show ?case by blast
  qed
next
  assume "\<exists>evs. list_all (event_enabled cats) evs \<and> p = run cats evs"
  then obtain evs where ev: "list_all (event_enabled cats) evs" and p: "p = run cats evs" by blast
  from ev have "reachable cats (run cats evs)"
  proof (induction evs rule: rev_induct)
    case Nil
    show ?case using reachable.start by (simp add: run_def)
  next
    case (snoc ev evs)
    then show ?case by (simp add: run_snoc reachable.step)
  qed
  with p show "reachable cats p" by simp
qed

text \<open>Clicking unticked boxes one after the other ticks their items in the state.\<close>

lemma run_clicks_core:
  "distinct ids \<Longrightarrow> (\<forall>iid\<in>set ids. \<not> cb_checked p iid) \<Longrightarrow>
   core (fold (\<lambda>ev p. dispatch cats p ev) (map CheckboxClick ids) p) =
     fold (\<lambda>iid. set_item_checked iid True) ids (core p)"
proof (induction ids arbitrary: p)
  case Nil
  then show ?case by simp
next
  case (Cons iid ids)
  let ?q = "checkbox_click cats iid p"
  have "core ?q = set_item_checked iid True (core p)" and "\<forall>j\<in>set ids. \<not> cb_checked ?q j"
    using Cons.prems by (auto simp: checkbox_click_def Let_def)
  with Cons.IH [of ?q] Cons.prems(1) show ?case by simp
qed

end
