(* ===== verification/Spec2Isabelle.thy ===== *)
theory Spec2Isabelle
  imports Page
begin

text \<open>
  A verification development for the website audit checklist of
  \<^verbatim>\<open>src/script.js\<close>. The program is one browser script: a static catalog of
  categories and items, a state object holding a check per item and a note per
  category, a score computation, a summary and a bar chart rendered into the page,
  listeners for the checkboxes, textareas, section headers and three buttons, and a PDF
  export that reads the rendered summary back.

  \<^bold>\<open>Theories\<close> (each imports the ones it uses; this root imports \<open>Page\<close>, which
  reaches all others).
  \<^item> \<open>Prelude\<close>: how JavaScript values are represented (strings as UTF-8 byte lists,
    Numbers as \<open>rat\<close>, objects as maps), JS truthiness of a lookup, and the generic
    lemmas on folds, means and subsequences the components share (collection
    \<open>model_simps\<close>).
  \<^item> \<open>Catalog\<close>: \<open>categories\<close> (lines 2--72) as a list of \<open>category\<close> records
    with \<open>item\<close> records, its derived views (\<open>catalog_items\<close>, \<open>all_item_ids\<close>)
    and its well-formedness (\<open>catalog_wf\<close>: unique category and item ids).
  \<^item> \<open>Scoring\<close>: the \<open>state\<close> object (lines 93--96) as the record \<open>app_state\<close>;
    the state changes of the checkbox and note listeners (lines 142--155) as
    \<open>set_item_checked\<close> and \<open>set_category_note\<close>; the state part of \<open>clearAll\<close>
    (line 276) as \<open>clear_all_checks\<close>; \<open>computeScores\<close> (lines 159--190) as
    \<open>compute_scores\<close>, built like the code from the \<open>forEach\<close> loop
    (\<open>tally_category\<close> folded over the catalog, the item-count \<open>reduce\<close> as
    \<open>comp_count\<close>), the percentage map (\<open>cat_pct\<close>) and the mean (\<open>mean_pct\<close>);
    the outstanding list of \<open>renderSummary\<close> (lines 209--215) as \<open>outstanding\<close>
    and \<open>top_outstanding\<close>.
  \<^item> \<open>Format\<close>: the JavaScript built-ins the script relies on: \<open>toFixed(0)\<close>
    (\<open>to_fixed0\<close>, round half up, then the decimal digits), \<open>join\<close>,
    \<open>split\<close> (a \<open>function\<close> with a length measure) and \<open>trim\<close>.
  \<^item> \<open>Summary\<close>: \<open>renderSummary\<close> (lines 193--219) as \<open>render_summary\<close>,
    producing a \<open>summary_view\<close> record of the text written to each output element:
    the counts, the rounded overall score and its colour class (\<open>overall_class\<close>),
    the joined category line and the outstanding list items.
  \<^item> \<open>Chart\<close>: \<open>drawChart\<close> (lines 222--259): its constants, the scales
    \<open>x_map\<close>/\<open>y_map\<close> and the SVG elements as a \<open>svg_elem\<close> list.
  \<^item> \<open>Export\<close>: \<open>exportPDF\<close> (lines 290--321) as the list of jsPDF calls
    (\<open>pdf_cmd\<close>) made from a rendered summary.
  \<^item> \<open>Page\<close>: the whole page as a state machine: the record \<open>page\<close> joins
    \<open>app_state\<close> with the checkbox flags, textarea values, open flags of the
    section bodies, the summary view and the chart; \<open>ui_event\<close> lists the events the
    script listens to; \<open>dispatch\<close> runs each listener to completion
    (\<open>checkbox_click\<close>, \<open>note_input\<close>, \<open>header_click\<close>, \<open>expand_all\<close>,
    \<open>collapse_all\<close>, \<open>clear_all\<close>, all redrawing through \<open>update_summary\<close>
    where the code calls \<open>updateSummary\<close>); \<open>init_page\<close> is the page left by the
    init lines 282--283; \<open>reachable\<close> is the inductive closure under events on
    existing elements (\<open>event_enabled\<close>) and \<open>run\<close> a session as an event list.
  \<^item> this theory: concrete scenarios on the shipped catalog and the witnesses.

  \<^bold>\<open>What is proved.\<close>
  Scores: \<open>score_report_spec\<close> specifies them directly (per category the item
  count, the checked count and the percentage; the totals; the unweighted mean), and
  \<open>Scoring.compute_scores_refines\<close> shows that the program's intermediate objects,
  read back by \<open>report_of\<close>, give exactly that report whenever category ids are
  unique. Without that assumption the percentages and the mean still lie in [0, 100].
  The all-checked and nothing-checked cases, the outstanding list (length, catalog order,
  emptiness) and the effect of each handler on the scores are proved for every catalog.
  Text: the joined category line splits back at the bullet into the category texts;
  the overall text is the score rounded half up, and its colour class is characterised
  against it; the placeholder of the outstanding list shows exactly when every item is
  checked. Chart: every bar lies in the plot, reaches the baseline, and the bars are
  drawn left to right in disjoint slots. Export: the commands equal those of a report
  built from the scores, and every line's y position is bounded. Page (by rule induction
  over \<open>reachable\<close> with the invariant \<open>page_inv\<close>): on every reachable page no
  check or note key lies outside the catalog, the controls show the state, the summary
  and chart are those of the current scores, and the export prints the current report;
  clear-all restores the loaded display and keeps the notes, a header click toggles
  exactly its own section, notes commute with checks and with clear-all, and a double
  click restores the display.

  \<^bold>\<open>Findings\<close> (stated and proved as theorems): the overall score is printed as
  "80%" in the warning colour exactly when it lies in [79.5, 80), since the class
  compares the unrounded number (\<open>Summary.overall_class_rounding_mismatch\<close>), and
  such a page is reached on the shipped catalog by ticking 25 boxes (score 5015/63,
  \<open>mismatch_page\<close>); with six categories the sixth category line of the PDF is
  printed at y = 140 on the baseline of the "Outstanding Items:" heading
  (\<open>Export.export_sixth_category_overlaps_heading\<close>); the listeners store any id
  they are given, so the catalog-only key invariant holds of the page
  (\<open>Page.reachable_no_orphan_keys\<close>) but not of the handlers alone
  (\<open>Scoring.set_item_checked_unknown\<close>).

  \<^bold>\<open>Numbers and bounds.\<close> JavaScript Numbers are exact rationals: the program only
  forms ratios of counts below 40, their mean and affine chart coordinates, and the
  claims compare them with thresholds; IEEE rounding is not modelled. Pixel
  coordinates are rationals as well. The outstanding list is cut at the code's six
  items (\<open>outstanding_limit\<close>); the chart uses the code's 600 by 240 box with
  padding 32. No loop of the program can diverge: every loop is a \<open>forEach\<close>,
  \<open>map\<close> or \<open>reduce\<close> over a finite list (a fold here) and \<open>split\<close> is a
  \<open>function\<close> whose termination is proved, so no fuel is needed.

  \<^bold>\<open>Not modelled.\<close> The HTML template strings of \<open>renderChecklist\<close>, the CSS
  classes other than the \<open>open\<close> flag and the overall class, the \<open>els\<close>
  element lookups, the jsPDF library beyond the sequence of calls it receives, and the
  export button listener (it only calls \<open>exportPDF\<close>, which leaves the page
  unchanged), and JavaScript property lookup through the object prototype (an item id
  such as \<open>toString\<close> would read as checked); the page keys checkboxes and textareas
  by element id. Both are exact for catalogs with distinct ids that are not prototype
  property names, which the shipped catalog is (\<open>Catalog.categories_wf\<close>). A later sitting can add the SVG and HTML strings as byte lists and
  prove their escaping and attribute structure, and events on elements outside the
  catalog (the model enables only events from rendered elements).
\<close>

section \<open>Pages and states on the shipped catalog\<close>

text \<open>A page after two user events: a ticked SEO item and a typed SEO note.\<close>

definition session_page :: page where
  "session_page =
     dispatch categories
       (dispatch categories (init_page categories) (CheckboxClick ''meta-title''))
       (NoteInput ''seo'' ''Titles reviewed'')"

section \<open>The colour class and the rounded score\<close>

text \<open>Checking the first SEO item, the first five Performance items and all but the last
  Security item gives an overall score of 5015/63 (about 79.6).\<close>

definition mismatch_ids :: "js_string list" where
  "mismatch_ids =
     [''meta-title'', ''images-optimized'', ''lazy-loading'', ''caching'', ''minification'', ''critical-css'',
      ''alt-text'', ''color-contrast'', ''keyboard-nav'', ''labels'', ''semantics'',
      ''freshness'', ''clarity'', ''readability'', ''internal-links'', ''ctas'',
      ''mobile'', ''navigation'', ''consistency'', ''forms'', ''feedback'',
      ''https'', ''headers'', ''updates'', ''backup'']"

definition mismatch_state :: app_state where
  "mismatch_state = fold (\<lambda>iid. set_item_checked iid True) mismatch_ids init_state"

text \<open>The page after clicking those 25 checkboxes one after the other.\<close>

definition mismatch_page :: page where
  "mismatch_page = run categories (map CheckboxClick mismatch_ids)"

definition all_checked_state :: "category list \<Rightarrow> app_state" where
  "all_checked_state cats = fold (\<lambda>iid. set_item_checked iid True) (all_item_ids cats) init_state"

lemma all_checked_state_checks:
  "\<forall>iid\<in>set (all_item_ids categories). checks (all_checked_state categories) iid = Some True"
  by (simp add: all_checked_state_def all_item_ids_def catalog_defs set_item_checked_def init_state_def)

section \<open>Witnesses on the shipped catalog\<close>

lemma categories_titles_plain:
  "\<forall>c\<in>set categories. \<not> sublist bullet (title c) \<and> (title c = [] \<or> \<not> js_space (hd (title c)))"
  by (simp add: catalog_defs bullet_def js_space_def sublist_code)

theorem category_line_roundtrip_witness:
  "map js_trim (js_split bullet (out_category_scores
      (render_summary categories mismatch_state (compute_scores categories mismatch_state))))
   = map category_score_text (category_percents (compute_scores categories mismatch_state))"
  by (rule category_line_roundtrip [OF _ categories_titles_plain]) (simp add: catalog_defs)

theorem outstanding_placeholder_iff_witness:
  "out_outstanding (render_summary categories (all_checked_state categories)
     (compute_scores categories (all_checked_state categories))) = [all_clear_text]"
  using outstanding_placeholder_iff [of categories "all_checked_state categories"
      "compute_scores categories (all_checked_state categories)"]
    all_checked_state_checks by (simp add: is_checked_def)

theorem compute_scores_refines_witness:
  "distinct (map cat_id categories) \<and>
   report_of categories (compute_scores categories init_state) = score_report_spec categories init_state"
  using compute_scores_refines [OF categories_cat_ids_distinct, of init_state]
    categories_cat_ids_distinct by simp

theorem compute_scores_pct_bounds_witness:
  "\<lparr>pct_id = ''seo'', pct_title = ''SEO Basics'', pct = 100 / 7\<rparr>
     \<in> set (category_percents (compute_scores categories (set_item_checked ''meta-title'' True init_state))) \<and>
   0 \<le> (100 / 7 :: rat) \<and> (100 / 7 :: rat) \<le> 100"
proof -
  have m: "\<lparr>pct_id = ''seo'', pct_title = ''SEO Basics'', pct = 100 / 7\<rparr>
     \<in> set (category_percents (compute_scores categories (set_item_checked ''meta-title'' True init_state)))"
    by (simp add: scores_eval catalog_defs set_item_checked_def init_state_def)
  show ?thesis using m compute_scores_pct_bounds [OF m] by simp
qed

theorem compute_scores_all_checked_witness:
  "map pct (category_percents (compute_scores categories (all_checked_state categories))) =
     replicate 6 100 \<and>
   overall (compute_scores categories (all_checked_state categories)) = 100"
proof -
  let ?cps = "category_percents (compute_scores categories (all_checked_state categories))"
  have h: "(\<forall>cp\<in>set ?cps. pct cp = 100) \<and>
    overall (compute_scores categories (all_checked_state categories)) = (if categories = [] then 0 else 100)"
    by (rule compute_scores_all_checked [OF categories_nonempty all_checked_state_checks])
  have len: "length ?cps = 6" by (simp add: compute_scores_def Let_def catalog_defs)
  from h have rep: "replicate (length (map pct ?cps)) 100 = map pct ?cps"
    by (intro replicate_length_same) auto
  have ne: "categories \<noteq> []" by (simp add: catalog_defs)
  from h ne have "overall (compute_scores categories (all_checked_state categories)) = 100" by simp
  moreover from rep len have "map pct ?cps = replicate 6 100" by simp
  ultimately show ?thesis by simp
qed

theorem compute_scores_none_checked_witness:
  "overall (compute_scores categories init_state) = 0 \<and>
   total_completed (compute_scores categories init_state) = 0"
proof -
  have "\<forall>iid\<in>set (all_item_ids categories). \<not> is_checked init_state iid"
    by (simp add: is_checked_def init_state_def)
  from compute_scores_none_checked [OF this] show ?thesis by simp
qed

theorem top_outstanding_empty_iff_witness:
  "top_outstanding categories (all_checked_state categories) = []"
  using top_outstanding_empty_iff [of categories "all_checked_state categories"]
    all_checked_state_checks by (simp add: is_checked_def)

theorem set_item_checked_increments_witness:
  "total_completed (compute_scores categories (set_item_checked ''meta-title'' True init_state)) =
   Suc (total_completed (compute_scores categories init_state))"
proof -
  have d: "distinct (all_item_ids categories)" by (rule categories_item_ids_distinct)
  have m: "''meta-title'' \<in> set (all_item_ids categories)"
    by (simp add: all_item_ids_def catalog_defs)
  have u: "\<not> is_checked init_state ''meta-title''" by (simp add: is_checked_def init_state_def)
  show ?thesis by (rule set_item_checked_increments [OF d m u])
qed

theorem set_item_checked_unknown_witness:
  "compute_scores categories (set_item_checked ''notes-seo'' True init_state) =
   compute_scores categories init_state"
proof -
  have "''notes-seo'' \<notin> set (all_item_ids categories)" by (simp add: all_item_ids_def catalog_defs)
  then show ?thesis by (rule set_item_checked_unknown)
qed


lemma chart_first_bar_initial:
  "SvgRect (227/5) 208 (938/15) 0 ''SEO Basics: 0%''
     \<in> set (draw_chart (category_percents (compute_scores categories init_state)))"
  by code_simp

theorem chart_bars_in_plot_witness:
  "SvgRect (227/5) 208 (938/15) 0 ''SEO Basics: 0%''
     \<in> set (draw_chart (category_percents (compute_scores categories init_state))) \<and>
   chart_pad \<le> 227/5 \<and> 227/5 + 938/15 \<le> chart_w - chart_pad"
  using chart_first_bar_initial chart_bars_in_plot [OF chart_first_bar_initial] by simp

theorem chart_bars_ordered_witness:
  "(0::nat) < 1 \<and> (1::nat) < 6 \<and> x_map 6 0 + bar_width 6 < x_map 6 1"
proof -
  have l: "length (category_percents (compute_scores categories init_state)) = 6"
    by (simp add: catalog_defs)
  show ?thesis using chart_bars_ordered [of "category_percents (compute_scores categories init_state)"]
    unfolding l by simp
qed


lemma categories_ne: "categories \<noteq> [] \<and> length categories = 6"
  by (simp add: catalog_defs)

theorem export_pdf_from_scores_witness:
  "export_pdf (render_summary categories init_state (compute_scores categories init_state)) =
     pdf_header (render_summary categories init_state (compute_scores categories init_state))
     @ category_section (map category_score_text (category_percents (compute_scores categories init_state)))
     @ [PdfText ''Outstanding Items:'' 14 140]
     @ outstanding_lines (outstanding_display (top_outstanding categories init_state))
     @ [PdfSave ''website-audit-report.pdf'']"
  using categories_ne by (intro export_pdf_from_scores categories_titles_plain) simp

theorem export_sixth_category_overlaps_heading_witness:
  "6 \<le> length categories \<and>
   PdfText (category_score_text (category_percents (compute_scores categories init_state) ! 5)) 20 140
     \<in> set (export_pdf (render_summary categories init_state (compute_scores categories init_state)))"
  using categories_ne
    export_sixth_category_overlaps_heading [OF _ categories_titles_plain, of init_state] by simp

lemma export_initial_last_line:
  "200 \<in> set (text_ys (export_pdf (render_summary categories init_state (compute_scores categories init_state))))"
  by code_simp

theorem export_text_ys_bounds_witness:
  "200 \<in> set (text_ys (export_pdf (render_summary categories init_state (compute_scores categories init_state)))) \<and>
   (20::nat) \<le> 200 \<and> (200::nat) \<le> max 200 (80 + 10 * length categories)"
  using export_text_ys_bounds [OF _ categories_titles_plain export_initial_last_line] categories_ne
    export_initial_last_line by simp

section \<open>Witnesses for the page\<close>

lemma session_reachable: "reachable categories session_page"
  unfolding session_page_def by (intro reachable.step reachable.start) (simp_all add: all_item_ids_def catalog_defs)

theorem reachable_no_orphan_keys_witness:
  "reachable categories session_page \<and>
   dom (checks (core session_page)) \<subseteq> set (all_item_ids categories) \<and>
   dom (cat_notes (core session_page)) \<subseteq> cat_id ` set categories"
  using session_reachable reachable_no_orphan_keys [OF session_reachable] by (rule conjI)

theorem reachable_summary_current_witness:
  "reachable categories session_page \<and>
   view session_page = render_summary categories (core session_page) (compute_scores categories (core session_page)) \<and>
   chart session_page = draw_chart (category_percents (compute_scores categories (core session_page)))"
  using session_reachable reachable_summary_current [OF session_reachable] by (rule conjI)

theorem reachable_controls_match_state_witness:
  "reachable categories session_page \<and>
   cb_checked session_page ''meta-title'' = is_checked (core session_page) ''meta-title'' \<and>
   ta_value session_page ''seo'' = (case cat_notes (core session_page) ''seo'' of None \<Rightarrow> [] | Some t \<Rightarrow> t)"
proof -
  have m: "''meta-title'' \<in> set (all_item_ids categories)" by (simp add: all_item_ids_def catalog_defs)
  show ?thesis using session_reachable reachable_controls_match_state [OF session_reachable] m by blast
qed

theorem reachable_export_report_witness:
  "reachable categories session_page \<and> categories \<noteq> [] \<and>
   export_pdf (view session_page) =
     pdf_header (view session_page)
     @ category_section (map category_score_text (category_percents (compute_scores categories (core session_page))))
     @ [PdfText ''Outstanding Items:'' 14 140]
     @ outstanding_lines (outstanding_display (top_outstanding categories (core session_page)))
     @ [PdfSave ''website-audit-report.pdf'']"
  using session_reachable categories_ne
    reachable_export_report [OF session_reachable _ categories_titles_plain] by simp

theorem checkbox_double_click_witness:
  "reachable categories session_page \<and> ''meta-desc'' \<in> set (all_item_ids categories) \<and>
   view (checkbox_click categories ''meta-desc'' (checkbox_click categories ''meta-desc'' session_page)) =
     view session_page"
proof -
  have i: "''meta-desc'' \<in> set (all_item_ids categories)" by (simp add: all_item_ids_def catalog_defs)
  show ?thesis using session_reachable i checkbox_double_click [OF session_reachable i] by simp
qed

section \<open>The class and rounding mismatch on a reachable page\<close>

lemma mismatch_state_overall: "overall (compute_scores categories mismatch_state) = 5015 / 63"
  by (simp add: scores_eval catalog_defs mismatch_state_def mismatch_ids_def set_item_checked_def
      init_state_def)

lemma mismatch_page_reachable: "reachable categories mismatch_page"
proof -
  have "list_all (event_enabled categories) (map CheckboxClick mismatch_ids)"
    by (simp add: mismatch_ids_def all_item_ids_def catalog_defs)
  then show ?thesis unfolding mismatch_page_def using reachable_iff_run by blast
qed

lemma mismatch_page_core: "core mismatch_page = mismatch_state"
proof -
  have "distinct mismatch_ids" by (simp add: mismatch_ids_def)
  moreover have "\<forall>iid\<in>set mismatch_ids. \<not> cb_checked (init_page categories) iid"
    by (simp add: init_page_def rendered_page_def)
  ultimately show ?thesis
    unfolding mismatch_page_def run_def mismatch_state_def
    by (simp add: run_clicks_core init_page_def rendered_page_def)
qed

theorem overall_class_rounding_mismatch_witness:
  "reachable categories mismatch_page \<and>
   out_overall (view mismatch_page) = ''80%'' \<and> out_overall_class (view mismatch_page) = ''value warn''"
proof -
  have v: "view mismatch_page = render_summary categories mismatch_state (compute_scores categories mismatch_state)"
    using reachable_inv [OF mismatch_page_reachable] by (simp add: page_inv_def mismatch_page_core)
  have "159/2 \<le> overall (compute_scores categories mismatch_state) \<and>
        overall (compute_scores categories mismatch_state) < 80"
    by (simp add: mismatch_state_overall)
  then show ?thesis
    using overall_class_rounding_mismatch [of categories mismatch_state] mismatch_page_reachable
    by (simp add: v)
qed

theorem section_controls_witness:
  "reachable categories session_page \<and> 0 < length categories \<and>
   open_sections (header_click 0 session_page) ! 0 = (\<not> open_sections session_page ! 0) \<and>
   open_sections (expand_all session_page) ! 0"
  using session_reachable categories_ne section_controls [OF session_reachable, of 0 0] by simp

end
